theory Spec2Isabelle
  imports Complex_Main
begin

section \<open>Data model\<close>

text \<open>
  The waste-tracking application (src/app.py) keeps its data in a relational store and
  passes submissions around as Python dictionaries. Numbers (INTEGER student counts,
  DECIMAL weights, the floats of the edit form) are modelled as exact rationals: the
  rounding of DECIMAL(10,2) columns and of float arithmetic is not represented.

  A dictionary such as \<open>record_data\<close> is split by the type of its entries: the three
  textual keys the code reads (\<open>submission_id\<close>, \<open>submission_date\<close>, \<open>hostel\<close>) are
  optional strings (\<open>None\<close>: the key is absent), and the numeric entries form a map from
  key to number. \<open>non_json\<close> lists the keys whose values are objects that \<open>json.dumps\<close>
  does not accept (\<open>datetime.date\<close>, \<open>Decimal\<close>, \<open>datetime\<close>): it is empty for a
  dictionary of strings, ints and floats, and never empty for a row read from the
  database, whose \<open>submission_date\<close> is a \<open>datetime.date\<close>.
\<close>

type_synonym fields = "string \<rightharpoonup> rat"

record record_data =
  submission_id :: "string option"
  submission_date :: "string option"
  hostel_key :: "string option"
  nums :: fields
  non_json :: "string list"

text \<open>\<open>data.get(k, 0)\<close> on the numeric entries.\<close>

definition dict_get :: "record_data \<Rightarrow> string \<Rightarrow> rat" where
  "dict_get data k = (case nums data k of None \<Rightarrow> 0 | Some v \<Rightarrow> v)"

datatype status = pending | verified | rejected

text \<open>
  A row of \<open>mess_waste_submissions\<close> or \<open>hostel_waste_submissions\<close>; the table is keyed by
  its UNIQUE NOT NULL \<open>submission_id\<close>. The numeric columns are held by column name. The
  columns \<open>id\<close>, \<open>remarks\<close>, \<open>image_paths\<close> and \<open>submitted_at\<close>, which no operation
  below reads or writes, are left out.
\<close>

record submission =
  sub_date :: string
  sub_hostel :: string
  cols :: fields
  submitted_by :: string
  status :: status
  verified_by :: "string option"
  verified_at :: "nat option"

text \<open>
  A row of \<open>master_waste_data\<close>, UNIQUE on (date, hostel). Every numeric column has
  DEFAULT 0 and \<open>created_at\<close> defaults to the time of the insert. The surrogate key
  \<open>id\<close> is not modelled: no operation reads it.
\<close>

record master_row =
  date :: string
  hostel :: string
  total_students :: rat
  breakfast_student_waste :: rat
  breakfast_counter_waste :: rat
  breakfast_vegetable_peels :: rat
  lunch_student_waste :: rat
  lunch_counter_waste :: rat
  lunch_vegetable_peels :: rat
  snacks_student_waste :: rat
  snacks_counter_waste :: rat
  snacks_vegetable_peels :: rat
  dinner_student_waste :: rat
  dinner_counter_waste :: rat
  dinner_vegetable_peels :: rat
  total_mess_waste :: rat
  total_mess_waste_no_peels :: rat
  per_capita_mess_waste :: rat
  per_capita_mess_waste_no_peels :: rat
  mess_dry_waste :: rat
  total_hostel_waste :: rat
  dry_waste :: rat
  wet_waste :: rat
  e_waste :: rat
  biomedical_waste :: rat
  hazardous_waste :: rat
  created_at :: nat

text \<open>A row of \<open>pho_edits\<close>; the JSONB columns hold the dictionaries themselves.\<close>

record pho_edit =
  edit_submission_id :: string
  edit_submission_type :: string
  original_data :: record_data
  edited_data :: fields
  edited_by :: string
  edited_at :: nat
  edit_reason :: string

record db =
  mess_waste_submissions :: "string \<rightharpoonup> submission"
  hostel_waste_submissions :: "string \<rightharpoonup> submission"
  master_waste_data :: "string \<times> string \<rightharpoonup> master_row"
  pho_edits :: "pho_edit list"

text \<open>
  What one database function meets when it runs: \<open>get_db_connection()\<close> returns
  \<open>None\<close> (\<open>NoConn\<close>); or the connection is there and its first statement raises
  (\<open>Fails\<close>, the \<open>except\<close> branch, nothing committed); or the statements run and
  \<open>conn.commit()\<close> raises (\<open>CommitFails\<close>, the \<open>except\<close> branch again: what
  this connection wrote is lost, what another connection committed in the meantime
  stays); or every statement and the commit succeed (\<open>Up\<close>). \<open>clock\<close> is the time the
  call sees (\<open>datetime.now()\<close>, CURRENT\_TIMESTAMP).
\<close>

datatype conn = NoConn | Fails | CommitFails | Up

record env =
  conn :: conn
  clock :: nat

section \<open>Aggregation engine\<close>

text \<open>The totals computed at the head of \<open>add_to_master_file_mess\<close>.\<close>

definition mess_total_students :: "record_data \<Rightarrow> rat" where
  "mess_total_students data =
     dict_get data ''breakfast_students'' + dict_get data ''lunch_students'' +
     dict_get data ''snacks_students'' + dict_get data ''dinner_students''"

definition mess_total_mess_waste :: "record_data \<Rightarrow> rat" where
  "mess_total_mess_waste data =
     dict_get data ''breakfast_student_waste'' + dict_get data ''breakfast_counter_waste'' +
     dict_get data ''breakfast_vegetable_peels'' + dict_get data ''lunch_student_waste'' +
     dict_get data ''lunch_counter_waste'' + dict_get data ''lunch_vegetable_peels'' +
     dict_get data ''snacks_student_waste'' + dict_get data ''snacks_counter_waste'' +
     dict_get data ''snacks_vegetable_peels'' + dict_get data ''dinner_student_waste'' +
     dict_get data ''dinner_counter_waste'' + dict_get data ''dinner_vegetable_peels'' +
     dict_get data ''mess_dry_waste''"

definition mess_total_mess_waste_no_peels :: "record_data \<Rightarrow> rat" where
  "mess_total_mess_waste_no_peels data =
     dict_get data ''breakfast_student_waste'' + dict_get data ''breakfast_counter_waste'' +
     dict_get data ''lunch_student_waste'' + dict_get data ''lunch_counter_waste'' +
     dict_get data ''snacks_student_waste'' + dict_get data ''snacks_counter_waste'' +
     dict_get data ''dinner_student_waste'' + dict_get data ''dinner_counter_waste'' +
     dict_get data ''mess_dry_waste''"

text \<open>
  Python's \<open>/\<close> raises ZeroDivisionError on a zero divisor; \<open>None\<close> stands for the
  raised exception.
\<close>

definition py_div :: "rat \<Rightarrow> rat \<Rightarrow> rat option" where
  "py_div a b = (if b = 0 then None else Some (a / b))"

definition mess_per_capita_mess_waste :: "record_data \<Rightarrow> rat option" where
  "mess_per_capita_mess_waste data =
     (if mess_total_students data > 0
      then py_div (mess_total_mess_waste data) (mess_total_students data) else Some 0)"

definition mess_per_capita_mess_waste_no_peels :: "record_data \<Rightarrow> rat option" where
  "mess_per_capita_mess_waste_no_peels data =
     (if mess_total_students data > 0
      then py_div (mess_total_mess_waste_no_peels data) (mess_total_students data)
      else Some 0)"

text \<open>
  The INSERT branch of the upsert: the listed columns take the values of the statement,
  every other column its default.
\<close>

definition mess_insert_row ::
  "nat \<Rightarrow> string \<Rightarrow> string \<Rightarrow> record_data \<Rightarrow> rat \<Rightarrow> rat \<Rightarrow> master_row" where
  "mess_insert_row now d h data pc pc_no_peels =
     \<lparr> date = d, hostel = h,
       total_students = mess_total_students data,
       breakfast_student_waste = dict_get data ''breakfast_student_waste'',
       breakfast_counter_waste = dict_get data ''breakfast_counter_waste'',
       breakfast_vegetable_peels = dict_get data ''breakfast_vegetable_peels'',
       lunch_student_waste = dict_get data ''lunch_student_waste'',
       lunch_counter_waste = dict_get data ''lunch_counter_waste'',
       lunch_vegetable_peels = dict_get data ''lunch_vegetable_peels'',
       snacks_student_waste = dict_get data ''snacks_student_waste'',
       snacks_counter_waste = dict_get data ''snacks_counter_waste'',
       snacks_vegetable_peels = dict_get data ''snacks_vegetable_peels'',
       dinner_student_waste = dict_get data ''dinner_student_waste'',
       dinner_counter_waste = dict_get data ''dinner_counter_waste'',
       dinner_vegetable_peels = dict_get data ''dinner_vegetable_peels'',
       total_mess_waste = mess_total_mess_waste data,
       total_mess_waste_no_peels = mess_total_mess_waste_no_peels data,
       per_capita_mess_waste = pc,
       per_capita_mess_waste_no_peels = pc_no_peels,
       mess_dry_waste = dict_get data ''mess_dry_waste'',
       total_hostel_waste = 0, dry_waste = 0, wet_waste = 0, e_waste = 0,
       biomedical_waste = 0, hazardous_waste = 0,
       created_at = now \<rparr>"

text \<open>The ON CONFLICT (date, hostel) DO UPDATE SET branch, column by column.\<close>

definition mess_update_row :: "record_data \<Rightarrow> rat \<Rightarrow> rat \<Rightarrow> master_row \<Rightarrow> master_row" where
  "mess_update_row data pc pc_no_peels row =
     row\<lparr> total_students := mess_total_students data,
          total_mess_waste := mess_total_mess_waste data,
          total_mess_waste_no_peels := mess_total_mess_waste_no_peels data,
          per_capita_mess_waste := pc,
          per_capita_mess_waste_no_peels := pc_no_peels,
          breakfast_student_waste := dict_get data ''breakfast_student_waste'',
          breakfast_counter_waste := dict_get data ''breakfast_counter_waste'',
          breakfast_vegetable_peels := dict_get data ''breakfast_vegetable_peels'',
          lunch_student_waste := dict_get data ''lunch_student_waste'',
          lunch_counter_waste := dict_get data ''lunch_counter_waste'',
          lunch_vegetable_peels := dict_get data ''lunch_vegetable_peels'',
          snacks_student_waste := dict_get data ''snacks_student_waste'',
          snacks_counter_waste := dict_get data ''snacks_counter_waste'',
          snacks_vegetable_peels := dict_get data ''snacks_vegetable_peels'',
          dinner_student_waste := dict_get data ''dinner_student_waste'',
          dinner_counter_waste := dict_get data ''dinner_counter_waste'',
          dinner_vegetable_peels := dict_get data ''dinner_vegetable_peels'',
          mess_dry_waste := dict_get data ''mess_dry_waste'' \<rparr>"

text \<open>
  \<open>add_to_master_file_mess(data)\<close>. Without a connection the function returns at once;
  an exception inside \<open>try\<close> (a failing statement, a division by zero) is reported
  and swallowed, and nothing was committed. The columns \<open>date\<close> and \<open>hostel\<close>
  are NOT NULL, so a dictionary without \<open>submission_date\<close> or \<open>hostel\<close> makes the
  INSERT raise.
\<close>

definition add_to_master_file_mess :: "env \<Rightarrow> record_data \<Rightarrow> db \<Rightarrow> db" where
  "add_to_master_file_mess e data s =
     (case conn e of
        NoConn \<Rightarrow> s
      | Fails \<Rightarrow> s
      | CommitFails \<Rightarrow> s
      | Up \<Rightarrow>
          (case (mess_per_capita_mess_waste data, mess_per_capita_mess_waste_no_peels data) of
             (Some pc, Some pc_no_peels) \<Rightarrow>
               (case (submission_date data, hostel_key data) of
                  (Some d, Some h) \<Rightarrow>
                    (case master_waste_data s (d, h) of
                       None \<Rightarrow>
                         s\<lparr>master_waste_data :=
                             (master_waste_data s)
                               ((d, h) \<mapsto> mess_insert_row (clock e) d h data pc pc_no_peels)\<rparr>
                     | Some row \<Rightarrow>
                         s\<lparr>master_waste_data :=
                             (master_waste_data s)
                               ((d, h) \<mapsto> mess_update_row data pc pc_no_peels row)\<rparr>)
                | _ \<Rightarrow> s)
           | _ \<Rightarrow> s))"

text \<open>\<open>add_to_master_file_hostel(data)\<close>, built the same way.\<close>

definition hostel_total_hostel_waste :: "record_data \<Rightarrow> rat" where
  "hostel_total_hostel_waste data =
     dict_get data ''dry_waste'' + dict_get data ''wet_waste'' +
     dict_get data ''e_waste'' + dict_get data ''biomedical_waste'' +
     dict_get data ''hazardous_waste''"

definition hostel_insert_row :: "nat \<Rightarrow> string \<Rightarrow> string \<Rightarrow> record_data \<Rightarrow> master_row" where
  "hostel_insert_row now d h data =
     \<lparr> date = d, hostel = h,
       total_students = 0,
       breakfast_student_waste = 0, breakfast_counter_waste = 0,
       breakfast_vegetable_peels = 0,
       lunch_student_waste = 0, lunch_counter_waste = 0, lunch_vegetable_peels = 0,
       snacks_student_waste = 0, snacks_counter_waste = 0, snacks_vegetable_peels = 0,
       dinner_student_waste = 0, dinner_counter_waste = 0, dinner_vegetable_peels = 0,
       total_mess_waste = 0, total_mess_waste_no_peels = 0,
       per_capita_mess_waste = 0, per_capita_mess_waste_no_peels = 0,
       mess_dry_waste = 0,
       total_hostel_waste = hostel_total_hostel_waste data,
       dry_waste = dict_get data ''dry_waste'',
       wet_waste = dict_get data ''wet_waste'',
       e_waste = dict_get data ''e_waste'',
       biomedical_waste = dict_get data ''biomedical_waste'',
       hazardous_waste = dict_get data ''hazardous_waste'',
       created_at = now \<rparr>"

definition hostel_update_row :: "record_data \<Rightarrow> master_row \<Rightarrow> master_row" where
  "hostel_update_row data row =
     row\<lparr> total_hostel_waste := hostel_total_hostel_waste data,
          dry_waste := dict_get data ''dry_waste'',
          wet_waste := dict_get data ''wet_waste'',
          e_waste := dict_get data ''e_waste'',
          biomedical_waste := dict_get data ''biomedical_waste'',
          hazardous_waste := dict_get data ''hazardous_waste'' \<rparr>"

definition add_to_master_file_hostel :: "env \<Rightarrow> record_data \<Rightarrow> db \<Rightarrow> db" where
  "add_to_master_file_hostel e data s =
     (case conn e of
        NoConn \<Rightarrow> s
      | Fails \<Rightarrow> s
      | CommitFails \<Rightarrow> s
      | Up \<Rightarrow>
          (case (submission_date data, hostel_key data) of
             (Some d, Some h) \<Rightarrow>
               (case master_waste_data s (d, h) of
                  None \<Rightarrow>
                    s\<lparr>master_waste_data :=
                        (master_waste_data s)((d, h) \<mapsto> hostel_insert_row (clock e) d h data)\<rparr>
                | Some row \<Rightarrow>
                    s\<lparr>master_waste_data :=
                        (master_waste_data s)((d, h) \<mapsto> hostel_update_row data row)\<rparr>)
           | _ \<Rightarrow> s))"

section \<open>Display aggregation of hostel collections\<close>

text \<open>
  \<open>aggregate_hostel_waste_collections(records)\<close>: the sums shown for a hostel and date
  with several collections. The result is \<open>{}\<close> for no records; otherwise the numeric
  totals, the number of collections, and the hostel and date of the first record
  (\<open>'N/A'\<close> when missing). The sums are floats; the date and the \<open>submitted_at\<close> of the
  first record are copied as they are, and \<open>submitted_by\<close> is not represented.
\<close>

definition totals_get :: "fields \<Rightarrow> string \<Rightarrow> rat" where
  "totals_get totals k = (case totals k of None \<Rightarrow> 0 | Some v \<Rightarrow> v)"

definition add_collection :: "fields \<Rightarrow> record_data \<Rightarrow> fields" where
  "add_collection totals record =
     totals(''dry_waste'' \<mapsto> totals_get totals ''dry_waste'' + dict_get record ''dry_waste'',
            ''wet_waste'' \<mapsto> totals_get totals ''wet_waste'' + dict_get record ''wet_waste'',
            ''e_waste'' \<mapsto> totals_get totals ''e_waste'' + dict_get record ''e_waste'',
            ''biomedical_waste'' \<mapsto>
               totals_get totals ''biomedical_waste'' + dict_get record ''biomedical_waste'',
            ''hazardous_waste'' \<mapsto>
               totals_get totals ''hazardous_waste'' + dict_get record ''hazardous_waste'',
            ''total_waste'' \<mapsto> totals_get totals ''total_waste'' + dict_get record ''total_waste'')"

definition or_na :: "string option \<Rightarrow> string" where
  "or_na v = (case v of None \<Rightarrow> ''N/A'' | Some x \<Rightarrow> x)"

fun aggregate_hostel_waste_collections :: "record_data list \<Rightarrow> record_data" where
  "aggregate_hostel_waste_collections [] =
     \<lparr> submission_id = None, submission_date = None, hostel_key = None, nums = Map.empty,
       non_json = [] \<rparr>"
| "aggregate_hostel_waste_collections (r # rs) =
     \<lparr> submission_id = None,
       submission_date = Some (or_na (submission_date r)),
       hostel_key = Some (or_na (hostel_key r)),
       nums = foldl add_collection
                [''dry_waste'' \<mapsto> 0, ''wet_waste'' \<mapsto> 0, ''e_waste'' \<mapsto> 0,
                 ''biomedical_waste'' \<mapsto> 0, ''hazardous_waste'' \<mapsto> 0, ''total_waste'' \<mapsto> 0,
                 ''collection_count'' \<mapsto> of_nat (length (r # rs))]
                (r # rs),
       non_json =
         filter (\<lambda>k. k = ''submission_date'' \<or> k = ''submitted_at'') (non_json r) \<rparr>"

section \<open>Verification workflow\<close>

text \<open>
  \<open>UPDATE ... SET status = 'verified', verified_by = %s, verified_at = %s
  WHERE submission_id = %s\<close>: the row with that id, if there is one, whatever its status.
\<close>

definition mark_verified ::
  "string \<Rightarrow> nat \<Rightarrow> string \<Rightarrow> (string \<rightharpoonup> submission) \<Rightarrow> (string \<rightharpoonup> submission)" where
  "mark_verified pho_username timestamp sid tbl =
     (case tbl sid of
        None \<Rightarrow> tbl
      | Some r \<Rightarrow>
          tbl(sid \<mapsto> r\<lparr>status := verified, verified_by := Some pho_username,
                          verified_at := Some timestamp\<rparr>))"

text \<open>
  \<open>approve_submission(record_data, pho_username)\<close>. The first environment is that of the
  function's own connection, the second that of the connection which the nested
  \<open>add_to_master_file_*\<close> call opens for itself. A dictionary without \<open>submission_id\<close>
  raises KeyError inside \<open>try\<close>, so the function returns False. The nested call commits
  on its own connection before the function's own \<open>conn.commit()\<close>: when that commit
  raises, the UPDATE is lost, the function returns False, and what the nested call wrote
  stays.
\<close>

definition approve_submission ::
  "env \<Rightarrow> env \<Rightarrow> record_data \<Rightarrow> string \<Rightarrow> db \<Rightarrow> bool \<times> db" where
  "approve_submission e e' record_data pho_username s =
     (case conn e of
        NoConn \<Rightarrow> (False, s)
      | Fails \<Rightarrow> (False, s)
      | CommitFails \<Rightarrow>
          (if nums record_data ''breakfast_students'' \<noteq> None then
             (case submission_id record_data of
                None \<Rightarrow> (False, s)
              | Some sid \<Rightarrow> (False, add_to_master_file_mess e' record_data s))
           else
             (case submission_id record_data of
                None \<Rightarrow> (False, s)
              | Some sid \<Rightarrow> (False, add_to_master_file_hostel e' record_data s)))
      | Up \<Rightarrow>
          (if nums record_data ''breakfast_students'' \<noteq> None then
             (case submission_id record_data of
                None \<Rightarrow> (False, s)
              | Some sid \<Rightarrow>
                  (True,
                   add_to_master_file_mess e' record_data
                     (s\<lparr>mess_waste_submissions :=
                          mark_verified pho_username (clock e) sid (mess_waste_submissions s)\<rparr>)))
           else
             (case submission_id record_data of
                None \<Rightarrow> (False, s)
              | Some sid \<Rightarrow>
                  (True,
                   add_to_master_file_hostel e' record_data
                     (s\<lparr>hostel_waste_submissions :=
                          mark_verified pho_username (clock e) sid
                            (hostel_waste_submissions s)\<rparr>)))))"

text \<open>
  \<open>approve_all_collections(records, pho_username)\<close>: a loop that calls
  \<open>approve_submission\<close> on each record, drops what it returns, and returns nothing.
  \<open>es i\<close> is the pair of environments that the \<open>i\<close>-th call meets.
\<close>

fun approve_loop ::
  "(nat \<Rightarrow> env \<times> env) \<Rightarrow> nat \<Rightarrow> record_data list \<Rightarrow> string \<Rightarrow> db \<Rightarrow> db" where
  "approve_loop es i [] pho_username s = s"
| "approve_loop es i (record # records) pho_username s =
     approve_loop es (Suc i) records pho_username
       (snd (approve_submission (fst (es i)) (snd (es i)) record pho_username s))"

definition approve_all_collections ::
  "(nat \<Rightarrow> env \<times> env) \<Rightarrow> record_data list \<Rightarrow> string \<Rightarrow> db \<Rightarrow> unit \<times> db" where
  "approve_all_collections es records pho_username s =
     ((), approve_loop es 0 records pho_username s)"

section \<open>Edit and approve\<close>

text \<open>
  \<open>save_pho_edit\<close>: one INSERT into \<open>pho_edits\<close>, committed on its own connection. Its
  arguments are \<open>json.dumps(original_data)\<close> and \<open>json.dumps(edited_data)\<close>, evaluated
  inside \<open>try\<close>: the first raises TypeError when \<open>original_data\<close> holds a value that
  is not serialisable; \<open>edited_data\<close> holds the numbers of the form, which are. The
  table's CHECK constraint admits the two submission types only.
\<close>

definition save_pho_edit ::
  "env \<Rightarrow> string \<Rightarrow> string \<Rightarrow> record_data \<Rightarrow> fields \<Rightarrow> string \<Rightarrow> string \<Rightarrow> db \<Rightarrow> bool \<times> db" where
  "save_pho_edit e sid submission_type original edited pho_username reason s =
     (case conn e of
        NoConn \<Rightarrow> (False, s)
      | Fails \<Rightarrow> (False, s)
      | CommitFails \<Rightarrow> (False, s)
      | Up \<Rightarrow>
          (if non_json original \<noteq> [] then (False, s)
           else if submission_type = ''mess_waste'' \<or> submission_type = ''hostel_waste'' then
             (True,
              s\<lparr>pho_edits := pho_edits s @
                   [\<lparr> edit_submission_id = sid, edit_submission_type = submission_type,
                      original_data = original, edited_data = edited,
                      edited_by = pho_username, edited_at = clock e,
                      edit_reason = reason \<rparr>]\<rparr>)
           else (False, s)))"

text \<open>The columns that \<open>update_submission_with_edits\<close> sets from \<open>edited_data[...]\<close>.\<close>

definition mess_edit_columns :: "string list" where
  "mess_edit_columns =
     [''breakfast_students'', ''breakfast_student_waste'', ''breakfast_counter_waste'',
      ''breakfast_vegetable_peels'',
      ''lunch_students'', ''lunch_student_waste'', ''lunch_counter_waste'',
      ''lunch_vegetable_peels'',
      ''snacks_students'', ''snacks_student_waste'', ''snacks_counter_waste'',
      ''snacks_vegetable_peels'',
      ''dinner_students'', ''dinner_student_waste'', ''dinner_counter_waste'',
      ''dinner_vegetable_peels'',
      ''mess_dry_waste'', ''total_students'', ''total_mess_waste'']"

definition hostel_edit_columns :: "string list" where
  "hostel_edit_columns =
     [''dry_waste'', ''wet_waste'', ''e_waste'', ''biomedical_waste'', ''hazardous_waste'',
      ''total_waste'']"

text \<open>
  \<open>UPDATE ... SET c = %s, ..., status = 'verified', verified_by = %s, verified_at = %s
  WHERE submission_id = %s\<close> for the columns \<open>cs\<close>, each read as \<open>edited_data[c]\<close>.
\<close>

definition update_edited ::
  "string list \<Rightarrow> fields \<Rightarrow> string \<Rightarrow> nat \<Rightarrow> string \<Rightarrow> (string \<rightharpoonup> submission)
     \<Rightarrow> (string \<rightharpoonup> submission)" where
  "update_edited cs edited pho_username timestamp sid tbl =
     (case tbl sid of
        None \<Rightarrow> tbl
      | Some r \<Rightarrow>
          tbl(sid \<mapsto> r\<lparr>cols := (\<lambda>c. if c \<in> set cs then edited c else cols r c),
                          status := verified, verified_by := Some pho_username,
                          verified_at := Some timestamp\<rparr>))"

text \<open>
  \<open>update_submission_with_edits\<close>. A key missing from \<open>edited_data\<close> raises KeyError
  inside \<open>try\<close>. The function writes the submission table only.
\<close>

definition update_submission_with_edits ::
  "env \<Rightarrow> string \<Rightarrow> string \<Rightarrow> fields \<Rightarrow> string \<Rightarrow> db \<Rightarrow> bool \<times> db" where
  "update_submission_with_edits e sid submission_type edited pho_username s =
     (case conn e of
        NoConn \<Rightarrow> (False, s)
      | Fails \<Rightarrow> (False, s)
      | CommitFails \<Rightarrow> (False, s)
      | Up \<Rightarrow>
          (if submission_type = ''mess_waste'' then
             (if list_all (\<lambda>c. edited c \<noteq> None) mess_edit_columns then
                (True,
                 s\<lparr>mess_waste_submissions :=
                      update_edited mess_edit_columns edited pho_username (clock e) sid
                        (mess_waste_submissions s)\<rparr>)
              else (False, s))
           else
             (if list_all (\<lambda>c. edited c \<noteq> None) hostel_edit_columns then
                (True,
                 s\<lparr>hostel_waste_submissions :=
                      update_edited hostel_edit_columns edited pho_username (clock e) sid
                        (hostel_waste_submissions s)\<rparr>)
              else (False, s))))"

text \<open>
  The handler of the edit form in \<open>show_edit_form\<close>. \<open>form\<close> gives the value of each
  number input. \<open>Save\<close> builds \<open>edited_data\<close> with its recomputed totals, saves the edit
  record and, if that succeeded, updates the submission.
\<close>

definition mess_edited_data :: "(string \<Rightarrow> rat) \<Rightarrow> fields" where
  "mess_edited_data form =
     [''breakfast_students'' \<mapsto> form ''breakfast_students'',
      ''breakfast_student_waste'' \<mapsto> form ''breakfast_student_waste'',
      ''breakfast_counter_waste'' \<mapsto> form ''breakfast_counter_waste'',
      ''breakfast_vegetable_peels'' \<mapsto> form ''breakfast_vegetable_peels'',
      ''lunch_students'' \<mapsto> form ''lunch_students'',
      ''lunch_student_waste'' \<mapsto> form ''lunch_student_waste'',
      ''lunch_counter_waste'' \<mapsto> form ''lunch_counter_waste'',
      ''lunch_vegetable_peels'' \<mapsto> form ''lunch_vegetable_peels'',
      ''snacks_students'' \<mapsto> form ''snacks_students'',
      ''snacks_student_waste'' \<mapsto> form ''snacks_student_waste'',
      ''snacks_counter_waste'' \<mapsto> form ''snacks_counter_waste'',
      ''snacks_vegetable_peels'' \<mapsto> form ''snacks_vegetable_peels'',
      ''dinner_students'' \<mapsto> form ''dinner_students'',
      ''dinner_student_waste'' \<mapsto> form ''dinner_student_waste'',
      ''dinner_counter_waste'' \<mapsto> form ''dinner_counter_waste'',
      ''dinner_vegetable_peels'' \<mapsto> form ''dinner_vegetable_peels'',
      ''mess_dry_waste'' \<mapsto> form ''mess_dry_waste'',
      ''total_students'' \<mapsto>
         form ''breakfast_students'' + form ''lunch_students'' +
         form ''snacks_students'' + form ''dinner_students'',
      ''total_mess_waste'' \<mapsto>
         form ''breakfast_student_waste'' + form ''breakfast_counter_waste'' +
         form ''breakfast_vegetable_peels'' +
         form ''lunch_student_waste'' + form ''lunch_counter_waste'' +
         form ''lunch_vegetable_peels'' +
         form ''snacks_student_waste'' + form ''snacks_counter_waste'' +
         form ''snacks_vegetable_peels'' +
         form ''dinner_student_waste'' + form ''dinner_counter_waste'' +
         form ''dinner_vegetable_peels'' +
         form ''mess_dry_waste'']"

definition hostel_edited_data :: "(string \<Rightarrow> rat) \<Rightarrow> fields" where
  "hostel_edited_data form =
     [''dry_waste'' \<mapsto> form ''dry_waste'',
      ''wet_waste'' \<mapsto> form ''wet_waste'',
      ''e_waste'' \<mapsto> form ''e_waste'',
      ''biomedical_waste'' \<mapsto> form ''biomedical_waste'',
      ''hazardous_waste'' \<mapsto> form ''hazardous_waste'',
      ''total_waste'' \<mapsto>
         form ''dry_waste'' + form ''wet_waste'' + form ''e_waste'' +
         form ''biomedical_waste'' + form ''hazardous_waste'']"

definition build_edited_data :: "string \<Rightarrow> (string \<Rightarrow> rat) \<Rightarrow> fields" where
  "build_edited_data submission_type form =
     (if submission_type = ''mess_waste'' then mess_edited_data form
      else hostel_edited_data form)"

datatype button = Save | Cancel

datatype form_result = Approved | ErrorUpdating | ErrorSaving | Cancelled | RaisedKeyError

definition show_edit_form ::
  "env \<Rightarrow> env \<Rightarrow> button \<Rightarrow> (string \<Rightarrow> rat) \<Rightarrow> string \<Rightarrow> record_data \<Rightarrow> string \<Rightarrow> string
     \<Rightarrow> db \<Rightarrow> form_result \<times> db" where
  "show_edit_form e e' pressed form reason record_data submission_type pho_username s =
     (case pressed of
        Cancel \<Rightarrow> (Cancelled, s)
      | Save \<Rightarrow>
          (case submission_id record_data of
             None \<Rightarrow> (RaisedKeyError, s)
           | Some sid \<Rightarrow>
               (let edited = build_edited_data submission_type form;
                    saved = save_pho_edit e sid submission_type record_data edited
                              pho_username reason s
                in if fst saved then
                     (let updated = update_submission_with_edits e' sid submission_type edited
                                      pho_username (snd saved)
                      in if fst updated then (Approved, snd updated)
                         else (ErrorUpdating, snd updated))
                   else (ErrorSaving, snd saved))))"

text \<open>
  \<open>dict(record)\<close> of a stored row, as \<open>load_pending_data_for_pho\<close> hands it to the
  verification pages. The cursor returns a DATE column as \<open>datetime.date\<close>, a DECIMAL
  column as \<open>Decimal\<close> and a TIMESTAMP column as \<open>datetime\<close>; \<open>submission_date\<close> and
  \<open>submitted_at\<close> are never NULL.
\<close>

definition decimal_columns :: "string list" where
  "decimal_columns =
     [''breakfast_student_waste'', ''breakfast_counter_waste'', ''breakfast_vegetable_peels'',
      ''lunch_student_waste'', ''lunch_counter_waste'', ''lunch_vegetable_peels'',
      ''snacks_student_waste'', ''snacks_counter_waste'', ''snacks_vegetable_peels'',
      ''dinner_student_waste'', ''dinner_counter_waste'', ''dinner_vegetable_peels'',
      ''mess_dry_waste'', ''total_mess_waste'',
      ''dry_waste'', ''wet_waste'', ''e_waste'', ''biomedical_waste'', ''hazardous_waste'',
      ''total_waste'']"

definition record_of_row :: "string \<Rightarrow> submission \<Rightarrow> record_data" where
  "record_of_row sid r =
     \<lparr> submission_id = Some sid, submission_date = Some (sub_date r),
       hostel_key = Some (sub_hostel r), nums = cols r,
       non_json =
         ''submission_date'' # ''submitted_at'' #
         filter (\<lambda>k. cols r k \<noteq> None) decimal_columns @
         (if verified_at r = None then [] else [''verified_at'']) \<rparr>"

section \<open>Vocabulary of the properties\<close>

text \<open>
  The 13 waste-component fields of a mess submission: three components for each of
  four meals, and the dry waste of the mess.
\<close>

definition meals :: "string list" where
  "meals = [''breakfast'', ''lunch'', ''snacks'', ''dinner'']"

definition components :: "string list" where
  "components = [''student_waste'', ''counter_waste'', ''vegetable_peels'']"

definition waste_component_fields :: "string list" where
  "waste_component_fields =
     concat (map (\<lambda>m. map (\<lambda>c. m @ ''_'' @ c) components) meals) @ [''mess_dry_waste'']"

definition vegetable_peel_fields :: "string list" where
  "vegetable_peel_fields = map (\<lambda>m. m @ ''_vegetable_peels'') meals"

text \<open>
  The two column groups of a master row.
\<close>

definition hostel_group :: "master_row \<Rightarrow> rat list" where
  "hostel_group row =
     [dry_waste row, wet_waste row, e_waste row, biomedical_waste row, hazardous_waste row,
      total_hostel_waste row]"

definition mess_group :: "master_row \<Rightarrow> rat list" where
  "mess_group row =
     [total_students row,
      breakfast_student_waste row, breakfast_counter_waste row, breakfast_vegetable_peels row,
      lunch_student_waste row, lunch_counter_waste row, lunch_vegetable_peels row,
      snacks_student_waste row, snacks_counter_waste row, snacks_vegetable_peels row,
      dinner_student_waste row, dinner_counter_waste row, dinner_vegetable_peels row,
      total_mess_waste row, total_mess_waste_no_peels row,
      per_capita_mess_waste row, per_capita_mess_waste_no_peels row, mess_dry_waste row]"

text \<open>
  The row that \<open>save_pho_edit\<close> inserts.
\<close>

definition new_edit ::
  "env \<Rightarrow> string \<Rightarrow> string \<Rightarrow> record_data \<Rightarrow> fields \<Rightarrow> string \<Rightarrow> string
     \<Rightarrow> pho_edit" where
  "new_edit e sid submission_type original edited pho_username reason =
     \<lparr> edit_submission_id = sid, edit_submission_type = submission_type,
       original_data = original, edited_data = edited,
       edited_by = pho_username, edited_at = clock e, edit_reason = reason \<rparr>"




text \<open>
  A numeric column of a stored submission.
\<close>

definition column_of :: "string \<Rightarrow> submission \<Rightarrow> rat option" where
  "column_of c r = cols r c"


text \<open>
  The values that a dictionary gives the columns of each group.
\<close>

definition computed_mess_group :: "record_data \<Rightarrow> rat list" where
  "computed_mess_group data =
     [mess_total_students data,
      dict_get data ''breakfast_student_waste'', dict_get data ''breakfast_counter_waste'',
      dict_get data ''breakfast_vegetable_peels'',
      dict_get data ''lunch_student_waste'', dict_get data ''lunch_counter_waste'',
      dict_get data ''lunch_vegetable_peels'',
      dict_get data ''snacks_student_waste'', dict_get data ''snacks_counter_waste'',
      dict_get data ''snacks_vegetable_peels'',
      dict_get data ''dinner_student_waste'', dict_get data ''dinner_counter_waste'',
      dict_get data ''dinner_vegetable_peels'',
      mess_total_mess_waste data, mess_total_mess_waste_no_peels data,
      (if mess_total_students data > 0
       then mess_total_mess_waste data / mess_total_students data else 0),
      (if mess_total_students data > 0
       then mess_total_mess_waste_no_peels data / mess_total_students data else 0),
      dict_get data ''mess_dry_waste'']"

definition computed_hostel_group :: "record_data \<Rightarrow> rat list" where
  "computed_hostel_group data =
     [dict_get data ''dry_waste'', dict_get data ''wet_waste'', dict_get data ''e_waste'',
      dict_get data ''biomedical_waste'', dict_get data ''hazardous_waste'',
      dict_get data ''dry_waste'' + dict_get data ''wet_waste'' + dict_get data ''e_waste'' +
      dict_get data ''biomedical_waste'' + dict_get data ''hazardous_waste'']"

text \<open>
  No waste component of the dictionary is negative.
\<close>

definition non_negative :: "record_data \<Rightarrow> bool" where
  "non_negative data = list_all (\<lambda>k. 0 \<le> dict_get data k) waste_component_fields"

section \<open>Example data\<close>

text \<open>
  Environments: a working connection, no connection, a failing commit, and schedules of
  them for the calls of a loop.
\<close>

definition up_at :: "nat \<Rightarrow> env" where
  "up_at t = \<lparr>conn = Up, clock = t\<rparr>"

definition no_conn_at :: "nat \<Rightarrow> env" where
  "no_conn_at t = \<lparr>conn = NoConn, clock = t\<rparr>"

definition commit_fails_at :: "nat \<Rightarrow> env" where
  "commit_fails_at t = \<lparr>conn = CommitFails, clock = t\<rparr>"

definition always_up :: "nat \<Rightarrow> env \<times> env" where
  "always_up i = (up_at (2 * i), up_at (2 * i + 1))"

definition first_call_fails :: "nat \<Rightarrow> env \<times> env" where
  "first_call_fails i = (if i = 0 then (no_conn_at 0, no_conn_at 1) else always_up i)"

text \<open>
  A mess submission for hostel 2 on 2024-01-10 (50 students at breakfast; 3, 1 and 0.5 kg
  of waste), two hostel collections of the same day, and a database that holds them as
  pending.
\<close>

definition example_mess_row :: submission where
  "example_mess_row =
     \<lparr> sub_date = ''2024-01-10'', sub_hostel = ''2'',
       cols = [''breakfast_students'' \<mapsto> 50, ''breakfast_student_waste'' \<mapsto> 3,
               ''breakfast_counter_waste'' \<mapsto> 1, ''breakfast_vegetable_peels'' \<mapsto> 1 / 2,
               ''lunch_students'' \<mapsto> 0, ''lunch_student_waste'' \<mapsto> 0,
               ''lunch_counter_waste'' \<mapsto> 0, ''lunch_vegetable_peels'' \<mapsto> 0,
               ''snacks_students'' \<mapsto> 0, ''snacks_student_waste'' \<mapsto> 0,
               ''snacks_counter_waste'' \<mapsto> 0, ''snacks_vegetable_peels'' \<mapsto> 0,
               ''dinner_students'' \<mapsto> 0, ''dinner_student_waste'' \<mapsto> 0,
               ''dinner_counter_waste'' \<mapsto> 0, ''dinner_vegetable_peels'' \<mapsto> 0,
               ''mess_dry_waste'' \<mapsto> 0, ''total_students'' \<mapsto> 50,
               ''total_mess_waste'' \<mapsto> 9 / 2],
       submitted_by = ''pho_supervisor_2'', status = pending,
       verified_by = None, verified_at = None \<rparr>"

definition example_mess_record :: record_data where
  "example_mess_record = record_of_row ''MESS_1'' example_mess_row"

definition example_hostel_row_first :: submission where
  "example_hostel_row_first =
     \<lparr> sub_date = ''2024-01-10'', sub_hostel = ''2'',
       cols = [''dry_waste'' \<mapsto> 2, ''wet_waste'' \<mapsto> 3, ''e_waste'' \<mapsto> 0,
               ''biomedical_waste'' \<mapsto> 0, ''hazardous_waste'' \<mapsto> 0, ''total_waste'' \<mapsto> 5],
       submitted_by = ''pho_supervisor_2'', status = pending,
       verified_by = None, verified_at = None \<rparr>"

definition example_hostel_row_second :: submission where
  "example_hostel_row_second =
     \<lparr> sub_date = ''2024-01-10'', sub_hostel = ''2'',
       cols = [''dry_waste'' \<mapsto> 1, ''wet_waste'' \<mapsto> 1, ''e_waste'' \<mapsto> 1 / 2,
               ''biomedical_waste'' \<mapsto> 0, ''hazardous_waste'' \<mapsto> 0,
               ''total_waste'' \<mapsto> 5 / 2],
       submitted_by = ''pho_supervisor_2'', status = pending,
       verified_by = None, verified_at = None \<rparr>"

definition example_hostel_first :: record_data where
  "example_hostel_first = record_of_row ''HOSTEL_1'' example_hostel_row_first"

definition example_hostel_second :: record_data where
  "example_hostel_second = record_of_row ''HOSTEL_2'' example_hostel_row_second"

definition example_db :: db where
  "example_db =
     \<lparr> mess_waste_submissions = [''MESS_1'' \<mapsto> example_mess_row],
       hostel_waste_submissions =
         [''HOSTEL_1'' \<mapsto> example_hostel_row_first,
          ''HOSTEL_2'' \<mapsto> example_hostel_row_second],
       master_waste_data = Map.empty,
       pho_edits = [] \<rparr>"

text \<open>
  The same database after \<open>MESS_1\<close> has been verified.
\<close>

definition example_verified_db :: db where
  "example_verified_db =
     example_db\<lparr>mess_waste_submissions :=
        [''MESS_1'' \<mapsto> example_mess_row\<lparr>status := verified, verified_by := Some ''pho'',
                                           verified_at := Some 1\<rparr>]\<rparr>"

text \<open>
  The entries of the record of \<open>MESS_1\<close> held as strings, ints and floats, and such a
  record whose breakfast student waste (4) is not the stored one (3).
\<close>

definition example_plain_record :: record_data where
  "example_plain_record = example_mess_record\<lparr>non_json := []\<rparr>"

definition example_stale_record :: record_data where
  "example_stale_record =
     example_plain_record
       \<lparr>nums := (nums example_plain_record)(''breakfast_student_waste'' \<mapsto> 4)\<rparr>"

text \<open>
  The edit form with the breakfast student waste changed to 5.
\<close>

definition example_form :: "string \<Rightarrow> rat" where
  "example_form k =
     (if k = ''breakfast_student_waste'' then 5 else dict_get example_mess_record k)"

text \<open>
  A mess record without students.
\<close>

definition example_no_students :: record_data where
  "example_no_students =
     \<lparr> submission_id = Some ''MESS_2'', submission_date = Some ''2024-01-11'',
       hostel_key = Some ''2'',
       nums = [''breakfast_students'' \<mapsto> 0, ''breakfast_student_waste'' \<mapsto> 3],
       non_json = [] \<rparr>"

section \<open>Properties\<close>

subsection \<open>The totals of a mess submission\<close>

lemma fields_eval:
  "waste_component_fields =
     [''breakfast_student_waste'', ''breakfast_counter_waste'', ''breakfast_vegetable_peels'',
      ''lunch_student_waste'', ''lunch_counter_waste'', ''lunch_vegetable_peels'',
      ''snacks_student_waste'', ''snacks_counter_waste'', ''snacks_vegetable_peels'',
      ''dinner_student_waste'', ''dinner_counter_waste'', ''dinner_vegetable_peels'',
      ''mess_dry_waste'']"
  by (simp add: waste_component_fields_def meals_def components_def)

lemma no_peel_fields_eval:
  "filter (\<lambda>k. k \<notin> set vegetable_peel_fields) waste_component_fields =
     [''breakfast_student_waste'', ''breakfast_counter_waste'',
      ''lunch_student_waste'', ''lunch_counter_waste'',
      ''snacks_student_waste'', ''snacks_counter_waste'',
      ''dinner_student_waste'', ''dinner_counter_waste'',
      ''mess_dry_waste'']"
  unfolding fields_eval by (simp add: vegetable_peel_fields_def meals_def)

lemma total_is_sum:
  "mess_total_mess_waste data = sum_list (map (dict_get data) waste_component_fields)"
  unfolding fields_eval by (simp add: mess_total_mess_waste_def)

lemma no_peels_is_sum:
  "mess_total_mess_waste_no_peels data =
     sum_list (map (dict_get data)
       (filter (\<lambda>k. k \<notin> set vegetable_peel_fields) waste_component_fields))"
  unfolding no_peel_fields_eval by (simp add: mess_total_mess_waste_no_peels_def)

lemma peels_nonneg:
  assumes "\<forall>k \<in> set waste_component_fields. 0 \<le> dict_get data k"
  shows "mess_total_mess_waste_no_peels data \<le> mess_total_mess_waste data"
proof -
  have p: "0 \<le> dict_get data ''breakfast_vegetable_peels''"
          "0 \<le> dict_get data ''lunch_vegetable_peels''"
          "0 \<le> dict_get data ''snacks_vegetable_peels''"
          "0 \<le> dict_get data ''dinner_vegetable_peels''"
    using assms unfolding fields_eval by simp_all
  show ?thesis
    unfolding mess_total_mess_waste_def mess_total_mess_waste_no_peels_def
    using p by linarith
qed

lemma per_capita_eq:
  "mess_per_capita_mess_waste data =
     Some (if mess_total_students data > 0
           then mess_total_mess_waste data / mess_total_students data else 0)"
  by (simp add: mess_per_capita_mess_waste_def py_div_def)

lemma per_capita_no_peels_eq:
  "mess_per_capita_mess_waste_no_peels data =
     Some (if mess_total_students data > 0
           then mess_total_mess_waste_no_peels data / mess_total_students data else 0)"
  by (simp add: mess_per_capita_mess_waste_no_peels_def py_div_def)

subsection \<open>Each upsert and the other column group\<close>

lemma add_mess_master:
  "master_waste_data (add_to_master_file_mess e data s) =
     (case (conn e, submission_date data, hostel_key data) of
        (Up, Some d, Some h) \<Rightarrow>
          (master_waste_data s)((d, h) \<mapsto>
             (case master_waste_data s (d, h) of
                None \<Rightarrow> mess_insert_row (clock e) d h data
                          (if mess_total_students data > 0
                           then mess_total_mess_waste data / mess_total_students data else 0)
                          (if mess_total_students data > 0
                           then mess_total_mess_waste_no_peels data / mess_total_students data
                           else 0)
              | Some row \<Rightarrow> mess_update_row data
                          (if mess_total_students data > 0
                           then mess_total_mess_waste data / mess_total_students data else 0)
                          (if mess_total_students data > 0
                           then mess_total_mess_waste_no_peels data / mess_total_students data
                           else 0) row))
      | _ \<Rightarrow> master_waste_data s)"
  by (simp add: add_to_master_file_mess_def per_capita_eq per_capita_no_peels_eq
           split: conn.splits option.splits)

lemma add_mess_other:
  "mess_waste_submissions (add_to_master_file_mess e data s) = mess_waste_submissions s"
  "hostel_waste_submissions (add_to_master_file_mess e data s) = hostel_waste_submissions s"
  "pho_edits (add_to_master_file_mess e data s) = pho_edits s"
  by (simp_all add: add_to_master_file_mess_def split: conn.splits option.splits)

lemma add_hostel_master:
  "master_waste_data (add_to_master_file_hostel e data s) =
     (case (conn e, submission_date data, hostel_key data) of
        (Up, Some d, Some h) \<Rightarrow>
          (master_waste_data s)((d, h) \<mapsto>
             (case master_waste_data s (d, h) of
                None \<Rightarrow> hostel_insert_row (clock e) d h data
              | Some row \<Rightarrow> hostel_update_row data row))
      | _ \<Rightarrow> master_waste_data s)"
  by (simp add: add_to_master_file_hostel_def split: conn.splits option.splits)

lemma add_hostel_other:
  "mess_waste_submissions (add_to_master_file_hostel e data s) = mess_waste_submissions s"
  "hostel_waste_submissions (add_to_master_file_hostel e data s) = hostel_waste_submissions s"
  "pho_edits (add_to_master_file_hostel e data s) = pho_edits s"
  by (simp_all add: add_to_master_file_hostel_def split: conn.splits option.splits)

lemma mess_update_frame:
  "hostel_group (mess_update_row data pc pcn row) = hostel_group row"
  "date (mess_update_row data pc pcn row) = date row"
  "hostel (mess_update_row data pc pcn row) = hostel row"
  "created_at (mess_update_row data pc pcn row) = created_at row"
  by (simp_all add: mess_update_row_def hostel_group_def)

lemma hostel_update_frame:
  "mess_group (hostel_update_row data row) = mess_group row"
  "date (hostel_update_row data row) = date row"
  "hostel (hostel_update_row data row) = hostel row"
  "created_at (hostel_update_row data row) = created_at row"
  by (simp_all add: hostel_update_row_def mess_group_def)

lemma mess_insert_defaults:
  "hostel_group (mess_insert_row now d h data pc pcn) = [0, 0, 0, 0, 0, 0]"
  by (simp add: mess_insert_row_def hostel_group_def)

lemma hostel_insert_defaults:
  "mess_group (hostel_insert_row now d h data) = replicate 18 0"
  by (simp add: hostel_insert_row_def mess_group_def eval_nat_numeral)

lemma mess_existing_row_kept:
  assumes "master_waste_data s k = Some row"
  shows "\<exists>row'. master_waste_data (add_to_master_file_mess e data s) k = Some row' \<and>
           hostel_group row' = hostel_group row \<and> date row' = date row \<and>
           hostel row' = hostel row \<and> created_at row' = created_at row"
  using assms
  by (auto simp: add_mess_master mess_update_frame split: conn.splits option.splits)

lemma hostel_existing_row_kept:
  assumes "master_waste_data s k = Some row"
  shows "\<exists>row'. master_waste_data (add_to_master_file_hostel e data s) k = Some row' \<and>
           mess_group row' = mess_group row \<and> date row' = date row \<and>
           hostel row' = hostel row \<and> created_at row' = created_at row"
  using assms
  by (auto simp: add_hostel_master hostel_update_frame split: conn.splits option.splits)

lemma mess_new_row_defaults:
  assumes "master_waste_data s k = None"
    and "master_waste_data (add_to_master_file_mess e data s) k = Some row'"
  shows "hostel_group row' = [0, 0, 0, 0, 0, 0]"
  using assms
  by (auto simp: add_mess_master mess_insert_defaults split: conn.splits option.splits if_splits)

lemma hostel_new_row_defaults:
  assumes "master_waste_data s k = None"
    and "master_waste_data (add_to_master_file_hostel e data s) k = Some row'"
  shows "mess_group row' = replicate 18 0"
  using assms
  by (auto simp: add_hostel_master hostel_insert_defaults split: conn.splits option.splits if_splits)

lemma mess_twice:
  assumes "conn e = Up"
  shows "add_to_master_file_mess e' data (add_to_master_file_mess e data s) =
         add_to_master_file_mess e data s"
proof (cases "conn e' = Up \<and> submission_date data \<noteq> None \<and> hostel_key data \<noteq> None")
  case False
  then show ?thesis
    by (auto simp: add_to_master_file_mess_def split: conn.splits option.splits)
next
  case True
  then obtain d h where dh: "submission_date data = Some d" "hostel_key data = Some h"
    by auto
  have e': "conn e' = Up" using True by simp
  show ?thesis
  proof (cases "master_waste_data s (d, h)")
    case None
    then show ?thesis
      using assms e' dh
      by (simp add: add_to_master_file_mess_def per_capita_eq per_capita_no_peels_eq
            mess_insert_row_def mess_update_row_def)
  next
    case (Some row)
    then show ?thesis
      using assms e' dh
      by (simp add: add_to_master_file_mess_def per_capita_eq per_capita_no_peels_eq
            mess_update_row_def)
  qed
qed

subsection \<open>Values of the example data\<close>

lemma record_of_row_simps:
  "submission_id (record_of_row sid r) = Some sid"
  "submission_date (record_of_row sid r) = Some (sub_date r)"
  "hostel_key (record_of_row sid r) = Some (sub_hostel r)"
  "nums (record_of_row sid r) = cols r"
  by (simp_all add: record_of_row_def)

lemma ex_totals:
  "mess_total_students example_mess_record = 50"
  "mess_total_mess_waste example_mess_record = 9 / 2"
  "mess_total_mess_waste_no_peels example_mess_record = 4"
  by (simp_all add: mess_total_students_def mess_total_mess_waste_def
        mess_total_mess_waste_no_peels_def dict_get_def example_mess_record_def
        record_of_row_simps example_mess_row_def)

lemma plain_keys:
  "submission_id example_plain_record = Some ''MESS_1''"
  "submission_date example_plain_record = Some ''2024-01-10''"
  "hostel_key example_plain_record = Some ''2''"
  "non_json example_plain_record = []"
  "submission_id example_stale_record = Some ''MESS_1''"
  "non_json example_stale_record = []"
  "nums example_stale_record ''breakfast_student_waste'' = Some 4"
  by (simp_all add: example_plain_record_def example_stale_record_def example_mess_record_def
        record_of_row_simps example_mess_row_def)

lemma loaded_not_serialisable: "non_json (record_of_row sid r) \<noteq> []"
  by (simp add: record_of_row_def)

lemma ex_keys:
  "submission_id example_mess_record = Some ''MESS_1''"
  "submission_date example_mess_record = Some ''2024-01-10''"
  "hostel_key example_mess_record = Some ''2''"
  "nums example_mess_record ''breakfast_students'' = Some 50"
  by (simp_all add: example_mess_record_def record_of_row_simps example_mess_row_def)

lemma ex_row_status: "status example_mess_row = pending"
  by (simp add: example_mess_row_def)

subsection \<open>Approval, the edit log and the history of the database\<close>

lemma approve_failure:
  "conn e = NoConn \<or> conn e = Fails \<or> submission_id r = None \<Longrightarrow>
   approve_submission e e' r u s = (False, s)"
  by (auto simp: approve_submission_def split: conn.splits)

lemma approve_commit_fails:
  "conn e = CommitFails \<Longrightarrow> submission_id r = Some sid \<Longrightarrow>
   approve_submission e e' r u s =
     (False,
      if nums r ''breakfast_students'' \<noteq> None then add_to_master_file_mess e' r s
      else add_to_master_file_hostel e' r s)"
  by (simp add: approve_submission_def)

lemma approve_result:
  "fst (approve_submission e e' r u s) \<longleftrightarrow> conn e = Up \<and> submission_id r \<noteq> None"
  by (auto simp: approve_submission_def split: conn.splits option.splits)

lemma approve_tables_on_failure:
  "\<not> fst (approve_submission e e' r u s) \<Longrightarrow>
   mess_waste_submissions (snd (approve_submission e e' r u s)) = mess_waste_submissions s \<and>
   hostel_waste_submissions (snd (approve_submission e e' r u s)) = hostel_waste_submissions s"
  by (auto simp: approve_submission_def add_mess_other add_hostel_other
        split: conn.splits option.splits)

lemma approve_up:
  "conn e = Up \<Longrightarrow> submission_id r = Some sid \<Longrightarrow>
   approve_submission e e' r u s =
     (True,
      if nums r ''breakfast_students'' \<noteq> None
      then add_to_master_file_mess e' r
             (s\<lparr>mess_waste_submissions := mark_verified u (clock e) sid (mess_waste_submissions s)\<rparr>)
      else add_to_master_file_hostel e' r
             (s\<lparr>hostel_waste_submissions :=
                  mark_verified u (clock e) sid (hostel_waste_submissions s)\<rparr>))"
  by (simp add: approve_submission_def)

lemma mark_verified_at:
  "tbl sid = Some row \<Longrightarrow>
   mark_verified u t sid tbl sid =
     Some (row\<lparr>status := verified, verified_by := Some u, verified_at := Some t\<rparr>)"
  by (simp add: mark_verified_def)



lemma approve_loop_foldl:
  "approve_loop es i rs u s =
     foldl (\<lambda>s (j, r). snd (approve_submission (fst (es j)) (snd (es j)) r u s)) s
       (zip [i ..< i + length rs] rs)"
proof (induction rs arbitrary: i s)
  case Nil
  then show ?case by simp
next
  case (Cons r rs)
  have "[i ..< i + length (r # rs)] = i # [Suc i ..< Suc i + length rs]"
    by (subst upt_rec) simp
  then show ?case using Cons.IH [of "Suc i"] by simp
qed

lemma approve_loop_append:
  "approve_loop es i (xs @ ys) u s =
     approve_loop es (i + length xs) ys u (approve_loop es i xs u s)"
  by (induction xs arbitrary: i s) simp_all

lemma save_cases:
  "save_pho_edit e sid ty orig edited u reason s =
     (if conn e = Up \<and> non_json orig = [] \<and> (ty = ''mess_waste'' \<or> ty = ''hostel_waste'')
      then (True, s\<lparr>pho_edits := pho_edits s @ [new_edit e sid ty orig edited u reason]\<rparr>)
      else (False, s))"
  by (simp add: save_pho_edit_def new_edit_def split: conn.splits)

lemma update_fields:
  "pho_edits (snd (update_submission_with_edits e sid ty edited u s)) = pho_edits s"
  "master_waste_data (snd (update_submission_with_edits e sid ty edited u s)) =
     master_waste_data s"
  by (simp_all add: update_submission_with_edits_def split: conn.splits)

lemma update_failure:
  "\<not> fst (update_submission_with_edits e sid ty edited u s) \<Longrightarrow>
   snd (update_submission_with_edits e sid ty edited u s) = s"
  by (simp add: update_submission_with_edits_def split: conn.splits if_splits)

lemma show_edit_form_cases:
  assumes "show_edit_form e e' b form reason rd ty u s = (res, s')"
  shows "(res \<in> {Cancelled, RaisedKeyError, ErrorSaving} \<and> s' = s) \<or>
         (\<exists>sid. submission_id rd = Some sid \<and> res = ErrorUpdating \<and>
            s' = s\<lparr>pho_edits := pho_edits s @
                    [new_edit e sid ty rd (build_edited_data ty form) u reason]\<rparr>) \<or>
         (\<exists>sid. submission_id rd = Some sid \<and> res = Approved \<and>
            s' = snd (update_submission_with_edits e' sid ty (build_edited_data ty form) u
                   (s\<lparr>pho_edits := pho_edits s @
                       [new_edit e sid ty rd (build_edited_data ty form) u reason]\<rparr>)))"
proof (cases b)
  case Cancel
  then show ?thesis using assms by (simp add: show_edit_form_def)
next
  case Save
  show ?thesis
  proof (cases "submission_id rd")
    case None
    then show ?thesis using assms Save by (simp add: show_edit_form_def)
  next
    case (Some sid)
    show ?thesis
    proof (cases "conn e = Up \<and> non_json rd = [] \<and>
                  (ty = ''mess_waste'' \<or> ty = ''hostel_waste'')")
      case False
      then show ?thesis using assms Save Some
        by (auto simp: show_edit_form_def save_cases Let_def)
    next
      case True
      let ?s1 = "s\<lparr>pho_edits := pho_edits s @
                       [new_edit e sid ty rd (build_edited_data ty form) u reason]\<rparr>"
      have sv: "save_pho_edit e sid ty rd (build_edited_data ty form) u reason s = (True, ?s1)"
        using True by (simp add: save_cases)
      show ?thesis
      proof (cases "fst (update_submission_with_edits e' sid ty (build_edited_data ty form) u ?s1)")
        case True
        then show ?thesis using assms Save Some sv
          by (auto simp: show_edit_form_def Let_def)
      next
        case False
        then show ?thesis using assms Save Some sv update_failure [OF False]
          by (auto simp: show_edit_form_def Let_def)
      qed
    qed
  qed
qed

lemma show_edit_form_master:
  "master_waste_data (snd (show_edit_form e e' b form reason rd ty u s)) = master_waste_data s"
  using show_edit_form_cases [of e e' b form reason rd ty u s
      "fst (show_edit_form e e' b form reason rd ty u s)"
      "snd (show_edit_form e e' b form reason rd ty u s)"]
  by (auto simp: update_fields)




subsection \<open>The upsert writes its own group only\<close>

lemma hostel_update_group:
  "hostel_group (hostel_update_row data row) = computed_hostel_group data"
  by (simp add: hostel_update_row_def hostel_group_def computed_hostel_group_def
        hostel_total_hostel_waste_def)

lemma hostel_insert_group:
  "hostel_group (hostel_insert_row now d h data) = computed_hostel_group data"
  by (simp add: hostel_insert_row_def hostel_group_def computed_hostel_group_def
        hostel_total_hostel_waste_def)

lemma mess_after_upsert:
  assumes "conn e = Up" "submission_date data = Some d" "hostel_key data = Some h"
  shows "map_option mess_group (master_waste_data (add_to_master_file_mess e data s) (d, h)) =
         Some (computed_mess_group data)"
  using assms
  by (simp add: add_mess_master mess_update_row_def mess_insert_row_def mess_group_def
        computed_mess_group_def split: option.splits)

lemma hostel_after_upsert:
  assumes "conn e = Up" "submission_date data = Some d" "hostel_key data = Some h"
  shows "map_option hostel_group
           (master_waste_data (add_to_master_file_hostel e data s) (d, h)) =
         Some (computed_hostel_group data)"
  using assms
  by (simp add: add_hostel_master hostel_update_group hostel_insert_group split: option.splits)

text \<open>
  C1. The mess upsert leaves the hostel-group columns of every existing row as they were,
  and the hostel upsert leaves the mess-group columns as they were; a row that an upsert
  inserts has the other group's columns at 0; and with a connection and a (date, hostel)
  key the row of that key carries the submitted group afterwards.
\<close>

theorem upsert_frame:
  "(master_waste_data s k = Some row \<longrightarrow>
      map_option hostel_group (master_waste_data (add_to_master_file_mess e data s) k) =
        Some (hostel_group row) \<and>
      map_option mess_group (master_waste_data (add_to_master_file_hostel e data s) k) =
        Some (mess_group row)) \<and>
   (master_waste_data s k = None \<longrightarrow>
      map_option hostel_group (master_waste_data (add_to_master_file_mess e data s) k)
        \<in> {None, Some [0, 0, 0, 0, 0, 0]} \<and>
      map_option mess_group (master_waste_data (add_to_master_file_hostel e data s) k)
        \<in> {None, Some (replicate 18 0)}) \<and>
   (conn e = Up \<and> submission_date data = Some d \<and> hostel_key data = Some h \<longrightarrow>
      map_option mess_group (master_waste_data (add_to_master_file_mess e data s) (d, h)) =
        Some (computed_mess_group data) \<and>
      map_option hostel_group (master_waste_data (add_to_master_file_hostel e data s) (d, h)) =
        Some (computed_hostel_group data))"
proof (intro conjI impI)
  assume r: "master_waste_data s k = Some row"
  show "map_option hostel_group (master_waste_data (add_to_master_file_mess e data s) k) =
        Some (hostel_group row)"
    using mess_existing_row_kept [OF r, of e data] by auto
  show "map_option mess_group (master_waste_data (add_to_master_file_hostel e data s) k) =
        Some (mess_group row)"
    using hostel_existing_row_kept [OF r, of e data] by auto
next
  assume n: "master_waste_data s k = None"
  show "map_option hostel_group (master_waste_data (add_to_master_file_mess e data s) k)
        \<in> {None, Some [0, 0, 0, 0, 0, 0]}"
    using mess_new_row_defaults [OF n, of e data]
    by (cases "master_waste_data (add_to_master_file_mess e data s) k") auto
  show "map_option mess_group (master_waste_data (add_to_master_file_hostel e data s) k)
        \<in> {None, Some (replicate 18 0)}"
    using hostel_new_row_defaults [OF n, of e data]
    by (cases "master_waste_data (add_to_master_file_hostel e data s) k") auto
next
  assume u: "conn e = Up \<and> submission_date data = Some d \<and> hostel_key data = Some h"
  show "map_option mess_group (master_waste_data (add_to_master_file_mess e data s) (d, h)) =
        Some (computed_mess_group data)"
    using u by (simp add: mess_after_upsert)
  show "map_option hostel_group (master_waste_data (add_to_master_file_hostel e data s) (d, h)) =
        Some (computed_hostel_group data)"
    using u by (simp add: hostel_after_upsert)
qed

lemma hostel_first_keys:
  "submission_id example_hostel_first = Some ''HOSTEL_1''"
  "submission_date example_hostel_first = Some ''2024-01-10''"
  "hostel_key example_hostel_first = Some ''2''"
  "nums example_hostel_first ''breakfast_students'' = None"
  "computed_hostel_group example_hostel_first = [2, 3, 0, 0, 0, 5]"
  by (simp_all add: example_hostel_first_def example_hostel_row_first_def record_of_row_simps
        computed_hostel_group_def dict_get_def)

lemma hostel_second_keys:
  "submission_id example_hostel_second = Some ''HOSTEL_2''"
  "submission_date example_hostel_second = Some ''2024-01-10''"
  "hostel_key example_hostel_second = Some ''2''"
  "nums example_hostel_second ''breakfast_students'' = None"
  "computed_hostel_group example_hostel_second = [1, 1, 1 / 2, 0, 0, 5 / 2]"
  by (simp_all add: example_hostel_second_def example_hostel_row_second_def record_of_row_simps
        computed_hostel_group_def dict_get_def)

lemma up_at_simps: "conn (up_at t) = Up" "clock (up_at t) = t"
  by (simp_all add: up_at_def)

lemma no_conn_at_simps: "conn (no_conn_at t) = NoConn" "clock (no_conn_at t) = t"
  by (simp_all add: no_conn_at_def)

lemma example_db_simps:
  "master_waste_data example_db = Map.empty"
  "pho_edits example_db = []"
  "mess_waste_submissions example_db ''MESS_1'' = Some example_mess_row"
  "hostel_waste_submissions example_db ''HOSTEL_1'' = Some example_hostel_row_first"
  "hostel_waste_submissions example_db ''HOSTEL_2'' = Some example_hostel_row_second"
  by (simp_all add: example_db_def)

theorem upsert_frame_witness:
  "master_waste_data (add_to_master_file_hostel (up_at 1) example_hostel_first example_db)
     (''2024-01-10'', ''2'') =
     Some (hostel_insert_row 1 ''2024-01-10'' ''2'' example_hostel_first) \<and>
   map_option hostel_group
     (master_waste_data
        (add_to_master_file_mess (up_at 2) example_mess_record
           (add_to_master_file_hostel (up_at 1) example_hostel_first example_db))
        (''2024-01-10'', ''2'')) = Some [2, 3, 0, 0, 0, 5] \<and>
   master_waste_data example_db (''2024-01-10'', ''2'') = None \<and>
   map_option hostel_group
     (master_waste_data (add_to_master_file_mess (up_at 2) example_mess_record example_db)
        (''2024-01-10'', ''2'')) = Some [0, 0, 0, 0, 0, 0]"
proof -
  let ?k = "(''2024-01-10'', ''2'')"
  let ?s = "add_to_master_file_hostel (up_at 1) example_hostel_first example_db"
  have a: "master_waste_data ?s ?k =
             Some (hostel_insert_row 1 ''2024-01-10'' ''2'' example_hostel_first)"
    by (simp add: add_hostel_master up_at_simps hostel_first_keys example_db_simps)
  have b: "master_waste_data example_db ?k = None"
    by (simp add: example_db_simps)
  have c: "master_waste_data (add_to_master_file_mess (up_at 2) example_mess_record example_db) ?k
             \<noteq> None"
    by (simp add: add_mess_master up_at_simps ex_keys)
  show ?thesis
    using a b c
      upsert_frame [of ?s ?k "hostel_insert_row 1 ''2024-01-10'' ''2'' example_hostel_first"
        "up_at 2" example_mess_record "''2024-01-10''" "''2''"]
      upsert_frame [of example_db ?k undefined "up_at 2" example_mess_record
        "''2024-01-10''" "''2''"]
    by (auto simp: hostel_insert_group hostel_first_keys)
qed

subsection \<open>Idempotence, per-capita figures, totals and overwriting\<close>

text \<open>
  C5. Once the mess upsert has been applied, applying it again with the same input
  leaves the database, and so the master row, exactly as it was.
\<close>

theorem mess_upsert_idempotent:
  assumes "conn e = Up"
  shows "add_to_master_file_mess e' data (add_to_master_file_mess e data s) =
         add_to_master_file_mess e data s"
  using assms by (rule mess_twice)

theorem mess_upsert_idempotent_witness:
  "conn (up_at 2) = Up \<and>
   add_to_master_file_mess (up_at 3) example_mess_record
     (add_to_master_file_mess (up_at 2) example_mess_record example_db) =
   add_to_master_file_mess (up_at 2) example_mess_record example_db \<and>
   map_option total_mess_waste
     (master_waste_data (add_to_master_file_mess (up_at 2) example_mess_record example_db)
        (''2024-01-10'', ''2'')) = Some (9 / 2)"
proof -
  have u: "conn (up_at 2) = Up" by (simp add: up_at_simps)
  have v: "map_option total_mess_waste
     (master_waste_data (add_to_master_file_mess (up_at 2) example_mess_record example_db)
        (''2024-01-10'', ''2'')) = Some (9 / 2)"
    by (simp add: add_mess_master up_at_simps ex_keys example_db_simps mess_insert_row_def
          ex_totals)
  show ?thesis
    using u v mess_upsert_idempotent [OF u, of "up_at 3" example_mess_record example_db]
    by simp
qed

text \<open>
  C6. The per-capita figures are the totals divided by the number of students when that
  number is positive and 0 when it is 0; the computation never raises (its result is
  never \<open>None\<close>), and the upsert stores these values.
\<close>

theorem per_capita_guarded:
  "(mess_total_students data > 0 \<longrightarrow>
      mess_per_capita_mess_waste data =
        Some (mess_total_mess_waste data / mess_total_students data) \<and>
      mess_per_capita_mess_waste_no_peels data =
        Some (mess_total_mess_waste_no_peels data / mess_total_students data)) \<and>
   (mess_total_students data = 0 \<longrightarrow>
      mess_per_capita_mess_waste data = Some 0 \<and>
      mess_per_capita_mess_waste_no_peels data = Some 0) \<and>
   mess_per_capita_mess_waste data \<noteq> None \<and>
   mess_per_capita_mess_waste_no_peels data \<noteq> None \<and>
   (conn e = Up \<and> submission_date data = Some d \<and> hostel_key data = Some h \<longrightarrow>
      map_option per_capita_mess_waste
        (master_waste_data (add_to_master_file_mess e data s) (d, h)) =
        mess_per_capita_mess_waste data \<and>
      map_option per_capita_mess_waste_no_peels
        (master_waste_data (add_to_master_file_mess e data s) (d, h)) =
        mess_per_capita_mess_waste_no_peels data)"
  by (simp add: per_capita_eq per_capita_no_peels_eq add_mess_master mess_insert_row_def
        mess_update_row_def split: option.splits)

lemma no_students_totals:
  "mess_total_students example_no_students = 0"
  "mess_total_mess_waste example_no_students = 3"
  by (simp_all add: mess_total_students_def mess_total_mess_waste_def dict_get_def
        example_no_students_def)

theorem per_capita_guarded_witness:
  "mess_total_students example_mess_record > 0 \<and>
   mess_per_capita_mess_waste example_mess_record = Some (9 / 100) \<and>
   mess_total_students example_no_students = 0 \<and>
   mess_total_mess_waste example_no_students = 3 \<and>
   mess_per_capita_mess_waste example_no_students = Some 0 \<and>
   conn (up_at 2) = Up \<and>
   map_option per_capita_mess_waste
     (master_waste_data (add_to_master_file_mess (up_at 2) example_mess_record example_db)
        (''2024-01-10'', ''2'')) = Some (9 / 100)"
  using per_capita_guarded [of example_mess_record "up_at 2" "''2024-01-10''" "''2''" example_db]
    per_capita_guarded [of example_no_students]
  by (simp add: ex_totals no_students_totals up_at_simps ex_keys)

text \<open>
  C7. \<open>total_mess_waste\<close> is the sum of the 13 waste-component fields (three components
  for each of four meals, and the dry waste), \<open>total_mess_waste_no_peels\<close> the sum of
  those that are not vegetable peels, and the second is at most the first when no
  component is negative; the row that the aggregation writes holds these two sums.
\<close>

theorem mess_totals:
  "length waste_component_fields = 13 \<and> distinct waste_component_fields \<and>
   length vegetable_peel_fields = 4 \<and>
   set vegetable_peel_fields \<subseteq> set waste_component_fields \<and>
   mess_total_mess_waste data = sum_list (map (dict_get data) waste_component_fields) \<and>
   mess_total_mess_waste_no_peels data =
     sum_list (map (dict_get data)
       (filter (\<lambda>k. k \<notin> set vegetable_peel_fields) waste_component_fields)) \<and>
   (non_negative data \<longrightarrow>
      mess_total_mess_waste_no_peels data \<le> mess_total_mess_waste data) \<and>
   (conn e = Up \<and> submission_date data = Some d \<and> hostel_key data = Some h \<longrightarrow>
      map_option total_mess_waste
        (master_waste_data (add_to_master_file_mess e data s) (d, h)) =
        Some (sum_list (map (dict_get data) waste_component_fields)) \<and>
      map_option total_mess_waste_no_peels
        (master_waste_data (add_to_master_file_mess e data s) (d, h)) =
        Some (sum_list (map (dict_get data)
                (filter (\<lambda>k. k \<notin> set vegetable_peel_fields) waste_component_fields))))"
proof (intro conjI impI)
  show "length waste_component_fields = 13" unfolding fields_eval by simp
  show "distinct waste_component_fields" unfolding fields_eval by simp
  show "length vegetable_peel_fields = 4"
    by (simp add: vegetable_peel_fields_def meals_def)
  show "set vegetable_peel_fields \<subseteq> set waste_component_fields"
    unfolding fields_eval by (simp add: vegetable_peel_fields_def meals_def)
  show "mess_total_mess_waste data = sum_list (map (dict_get data) waste_component_fields)"
    by (rule total_is_sum)
  show "mess_total_mess_waste_no_peels data =
     sum_list (map (dict_get data)
       (filter (\<lambda>k. k \<notin> set vegetable_peel_fields) waste_component_fields))"
    by (rule no_peels_is_sum)
next
  assume "non_negative data"
  then have "\<forall>k \<in> set waste_component_fields. 0 \<le> dict_get data k"
    by (simp add: non_negative_def list_all_iff)
  then show "mess_total_mess_waste_no_peels data \<le> mess_total_mess_waste data"
    by (rule peels_nonneg)
next
  assume u: "conn e = Up \<and> submission_date data = Some d \<and> hostel_key data = Some h"
  have t: "map_option total_mess_waste
             (master_waste_data (add_to_master_file_mess e data s) (d, h)) =
           Some (mess_total_mess_waste data)"
    using u
    by (simp add: add_mess_master mess_insert_row_def mess_update_row_def split: option.splits)
  have n: "map_option total_mess_waste_no_peels
             (master_waste_data (add_to_master_file_mess e data s) (d, h)) =
           Some (mess_total_mess_waste_no_peels data)"
    using u
    by (simp add: add_mess_master mess_insert_row_def mess_update_row_def split: option.splits)
  show "map_option total_mess_waste
        (master_waste_data (add_to_master_file_mess e data s) (d, h)) =
        Some (sum_list (map (dict_get data) waste_component_fields))"
    using t by (simp only: total_is_sum)
  show "map_option total_mess_waste_no_peels
        (master_waste_data (add_to_master_file_mess e data s) (d, h)) =
        Some (sum_list (map (dict_get data)
                (filter (\<lambda>k. k \<notin> set vegetable_peel_fields) waste_component_fields)))"
    using n by (simp only: no_peels_is_sum)
qed

lemma example_non_negative: "non_negative example_mess_record"
  unfolding non_negative_def fields_eval
  by (simp add: dict_get_def example_mess_record_def record_of_row_simps example_mess_row_def)

theorem mess_totals_witness:
  "non_negative example_mess_record \<and>
   mess_total_mess_waste example_mess_record = 9 / 2 \<and>
   mess_total_mess_waste_no_peels example_mess_record = 4 \<and>
   mess_total_mess_waste_no_peels example_mess_record
     \<le> mess_total_mess_waste example_mess_record \<and>
   conn (up_at 2) = Up \<and>
   submission_date example_mess_record = Some ''2024-01-10'' \<and>
   hostel_key example_mess_record = Some ''2'' \<and>
   map_option total_mess_waste
     (master_waste_data (add_to_master_file_mess (up_at 2) example_mess_record example_db)
        (''2024-01-10'', ''2'')) = Some (9 / 2) \<and>
   map_option total_mess_waste_no_peels
     (master_waste_data (add_to_master_file_mess (up_at 2) example_mess_record example_db)
        (''2024-01-10'', ''2'')) = Some 4"
proof -
  note t = mess_totals [of example_mess_record "up_at 2" "''2024-01-10''" "''2''" example_db]
  have u: "conn (up_at 2) = Up \<and>
           submission_date example_mess_record = Some ''2024-01-10'' \<and>
           hostel_key example_mess_record = Some ''2''"
    by (simp add: up_at_simps ex_keys)
  have le: "mess_total_mess_waste_no_peels example_mess_record
              \<le> mess_total_mess_waste example_mess_record"
    using t example_non_negative by blast
  have sums:
    "sum_list (map (dict_get example_mess_record) waste_component_fields) = 9 / 2"
    "sum_list (map (dict_get example_mess_record)
       (filter (\<lambda>k. k \<notin> set vegetable_peel_fields) waste_component_fields)) = 4"
    using t ex_totals by simp_all
  have st: "map_option total_mess_waste
     (master_waste_data (add_to_master_file_mess (up_at 2) example_mess_record example_db)
        (''2024-01-10'', ''2'')) = Some (9 / 2)"
    "map_option total_mess_waste_no_peels
     (master_waste_data (add_to_master_file_mess (up_at 2) example_mess_record example_db)
        (''2024-01-10'', ''2'')) = Some 4"
    using t u sums by simp_all
  show ?thesis
    using le st u example_non_negative by (simp add: ex_totals)
qed

lemma hostel_twice:
  assumes "submission_date r1 = Some d" "hostel_key r1 = Some h"
    and "submission_date r2 = Some d" "hostel_key r2 = Some h" and "conn e2 = Up"
  shows "map_option hostel_group
           (master_waste_data
              (add_to_master_file_hostel e2 r2 (add_to_master_file_hostel e1 r1 s)) (d, h)) =
         Some (computed_hostel_group r2)"
  using assms by (simp add: hostel_after_upsert)

lemma aggregate_two:
  "map (dict_get (aggregate_hostel_waste_collections [r1, r2]))
     [''dry_waste'', ''wet_waste'', ''e_waste'', ''biomedical_waste'', ''hazardous_waste'',
      ''total_waste''] =
   [dict_get r1 ''dry_waste'' + dict_get r2 ''dry_waste'',
    dict_get r1 ''wet_waste'' + dict_get r2 ''wet_waste'',
    dict_get r1 ''e_waste'' + dict_get r2 ''e_waste'',
    dict_get r1 ''biomedical_waste'' + dict_get r2 ''biomedical_waste'',
    dict_get r1 ''hazardous_waste'' + dict_get r2 ''hazardous_waste'',
    dict_get r1 ''total_waste'' + dict_get r2 ''total_waste'']"
  by (simp add: add_collection_def totals_get_def dict_get_def)

lemma approve_two_hostel:
  assumes "submission_date r1 = Some d" "hostel_key r1 = Some h"
    and "submission_date r2 = Some d" "hostel_key r2 = Some h"
    and "nums r1 ''breakfast_students'' = None" "nums r2 ''breakfast_students'' = None"
    and "submission_id r1 \<noteq> None" "submission_id r2 \<noteq> None"
    and "conn (fst (es 1)) = Up" "conn (snd (es 1)) = Up"
  shows "map_option hostel_group
           (master_waste_data (snd (approve_all_collections es [r1, r2] u s)) (d, h)) =
         Some (computed_hostel_group r2)"
proof -
  obtain i2 where i2: "submission_id r2 = Some i2" using assms by auto
  show ?thesis
    using assms i2
    by (simp add: approve_all_collections_def approve_up hostel_after_upsert)
qed

text \<open>
  C10. When two hostel submissions of one date and hostel are aggregated one after the
  other, the hostel-group columns of the master row are those of the second alone: the
  upsert overwrites. The same holds when \<open>approve_all_collections\<close> approves both, while
  \<open>aggregate_hostel_waste_collections\<close> shows their sums.
\<close>

theorem hostel_upsert_overwrites:
  assumes "submission_date r1 = Some d" "hostel_key r1 = Some h"
    and "submission_date r2 = Some d" "hostel_key r2 = Some h" and "conn e2 = Up"
  shows "map_option hostel_group
           (master_waste_data
              (add_to_master_file_hostel e2 r2 (add_to_master_file_hostel e1 r1 s)) (d, h)) =
         map_option hostel_group
           (master_waste_data (add_to_master_file_hostel e2 r2 s) (d, h)) \<and>
         map_option hostel_group
           (master_waste_data
              (add_to_master_file_hostel e2 r2 (add_to_master_file_hostel e1 r1 s)) (d, h)) =
         Some (computed_hostel_group r2) \<and>
         (nums r1 ''breakfast_students'' = None \<and> nums r2 ''breakfast_students'' = None \<and>
          submission_id r1 \<noteq> None \<and> submission_id r2 \<noteq> None \<and>
          conn (fst (es 1)) = Up \<and> conn (snd (es 1)) = Up \<longrightarrow>
            map_option hostel_group
              (master_waste_data (snd (approve_all_collections es [r1, r2] u s)) (d, h)) =
            Some (computed_hostel_group r2)) \<and>
         map (dict_get (aggregate_hostel_waste_collections [r1, r2]))
           [''dry_waste'', ''wet_waste'', ''e_waste'', ''biomedical_waste'',
            ''hazardous_waste'', ''total_waste''] =
         [dict_get r1 ''dry_waste'' + dict_get r2 ''dry_waste'',
          dict_get r1 ''wet_waste'' + dict_get r2 ''wet_waste'',
          dict_get r1 ''e_waste'' + dict_get r2 ''e_waste'',
          dict_get r1 ''biomedical_waste'' + dict_get r2 ''biomedical_waste'',
          dict_get r1 ''hazardous_waste'' + dict_get r2 ''hazardous_waste'',
          dict_get r1 ''total_waste'' + dict_get r2 ''total_waste'']"
proof (intro conjI impI)
  show "map_option hostel_group
           (master_waste_data
              (add_to_master_file_hostel e2 r2 (add_to_master_file_hostel e1 r1 s)) (d, h)) =
         map_option hostel_group
           (master_waste_data (add_to_master_file_hostel e2 r2 s) (d, h))"
    using assms by (simp add: hostel_after_upsert)
  show "map_option hostel_group
           (master_waste_data
              (add_to_master_file_hostel e2 r2 (add_to_master_file_hostel e1 r1 s)) (d, h)) =
         Some (computed_hostel_group r2)"
    using assms by (rule hostel_twice)
  show "map (dict_get (aggregate_hostel_waste_collections [r1, r2]))
           [''dry_waste'', ''wet_waste'', ''e_waste'', ''biomedical_waste'',
            ''hazardous_waste'', ''total_waste''] =
         [dict_get r1 ''dry_waste'' + dict_get r2 ''dry_waste'',
          dict_get r1 ''wet_waste'' + dict_get r2 ''wet_waste'',
          dict_get r1 ''e_waste'' + dict_get r2 ''e_waste'',
          dict_get r1 ''biomedical_waste'' + dict_get r2 ''biomedical_waste'',
          dict_get r1 ''hazardous_waste'' + dict_get r2 ''hazardous_waste'',
          dict_get r1 ''total_waste'' + dict_get r2 ''total_waste'']"
    by (rule aggregate_two)
next
  assume a: "nums r1 ''breakfast_students'' = None \<and> nums r2 ''breakfast_students'' = None \<and>
          submission_id r1 \<noteq> None \<and> submission_id r2 \<noteq> None \<and>
          conn (fst (es 1)) = Up \<and> conn (snd (es 1)) = Up"
  show "map_option hostel_group
              (master_waste_data (snd (approve_all_collections es [r1, r2] u s)) (d, h)) =
            Some (computed_hostel_group r2)"
    using assms(1-4) a by (intro approve_two_hostel) simp_all
qed

theorem hostel_upsert_overwrites_witness:
  "submission_date example_hostel_first = Some ''2024-01-10'' \<and>
   hostel_key example_hostel_first = Some ''2'' \<and>
   submission_date example_hostel_second = Some ''2024-01-10'' \<and>
   hostel_key example_hostel_second = Some ''2'' \<and>
   conn (up_at 2) = Up \<and>
   conn (fst (always_up 1)) = Up \<and> conn (snd (always_up 1)) = Up \<and>
   map_option hostel_group
     (master_waste_data
        (add_to_master_file_hostel (up_at 2) example_hostel_second
           (add_to_master_file_hostel (up_at 1) example_hostel_first example_db))
        (''2024-01-10'', ''2'')) = Some [1, 1, 1 / 2, 0, 0, 5 / 2] \<and>
   map_option hostel_group
     (master_waste_data
        (snd (approve_all_collections always_up [example_hostel_first, example_hostel_second]
                ''pho'' example_db))
        (''2024-01-10'', ''2'')) = Some [1, 1, 1 / 2, 0, 0, 5 / 2] \<and>
   dict_get (aggregate_hostel_waste_collections [example_hostel_first, example_hostel_second])
     ''dry_waste'' = 3"
proof -
  let ?k = "(''2024-01-10'', ''2'')"
  have u: "conn (up_at 2) = Up" by (simp add: up_at_simps)
  have v: "conn (fst (always_up 1)) = Up" "conn (snd (always_up 1)) = Up"
    by (simp_all add: always_up_def up_at_simps)
  note t = hostel_upsert_overwrites [OF hostel_first_keys(2,3) hostel_second_keys(2,3) u,
      of "up_at 1" example_db always_up "''pho''"]
  have a: "map_option hostel_group
     (master_waste_data
        (add_to_master_file_hostel (up_at 2) example_hostel_second
           (add_to_master_file_hostel (up_at 1) example_hostel_first example_db)) ?k) =
     Some [1, 1, 1 / 2, 0, 0, 5 / 2]"
    using t [THEN conjunct2, THEN conjunct1] by (simp only: hostel_second_keys(5))
  have b: "map_option hostel_group
     (master_waste_data
        (snd (approve_all_collections always_up [example_hostel_first, example_hostel_second]
                ''pho'' example_db)) ?k) = Some [1, 1, 1 / 2, 0, 0, 5 / 2]"
    using t [THEN conjunct2, THEN conjunct2, THEN conjunct1] v
    by (simp add: hostel_first_keys hostel_second_keys)
  have w: "dict_get example_hostel_first ''dry_waste'' = 2"
          "dict_get example_hostel_second ''dry_waste'' = 1"
    by (simp_all add: dict_get_def example_hostel_first_def example_hostel_second_def
          record_of_row_simps example_hostel_row_first_def example_hostel_row_second_def)
  have c: "dict_get
     (aggregate_hostel_waste_collections [example_hostel_first, example_hostel_second])
     ''dry_waste'' = 3"
    using t [THEN conjunct2, THEN conjunct2, THEN conjunct2] w
    by (simp del: aggregate_hostel_waste_collections.simps)
  show ?thesis
    using a b c u v by (simp add: hostel_first_keys hostel_second_keys)
qed

subsection \<open>Approval does not depend on the status\<close>

lemma approve_marks_mess:
  assumes "conn e = Up" "submission_id r = Some sid" "nums r ''breakfast_students'' \<noteq> None"
    and "mess_waste_submissions s sid = Some row"
  shows "mess_waste_submissions (snd (approve_submission e e' r u s)) sid =
         Some (row\<lparr>status := verified, verified_by := Some u, verified_at := Some (clock e)\<rparr>)"
  using assms by (simp add: approve_up add_mess_other mark_verified_at)

lemma approve_marks_hostel:
  assumes "conn e = Up" "submission_id r = Some sid" "nums r ''breakfast_students'' = None"
    and "hostel_waste_submissions s sid = Some row"
  shows "hostel_waste_submissions (snd (approve_submission e e' r u s)) sid =
         Some (row\<lparr>status := verified, verified_by := Some u, verified_at := Some (clock e)\<rparr>)"
  using assms by (simp add: approve_up add_hostel_other mark_verified_at)

text \<open>
  C2 (as amended). \<open>approve_submission\<close> does not look at the stored status: with a
  connection and a record that has a \<open>submission_id\<close> it returns True, sets the stored
  row of that id to verified with the verifier and the time, whatever its status was,
  and applies the aggregate upsert with the record's values. It returns False exactly
  when it has no working connection, a statement or its commit raises, or the record has
  no \<open>submission_id\<close>; the submission tables are then unchanged, and when only its own
  commit raised, the aggregate upsert of the nested call has been committed and stays.
\<close>

theorem approve_submission_ignores_status:
  "(conn e = Up \<and> submission_id record_data = Some sid \<longrightarrow>
      fst (approve_submission e e' record_data u s) = True \<and>
      (nums record_data ''breakfast_students'' \<noteq> None \<longrightarrow>
         snd (approve_submission e e' record_data u s) =
           add_to_master_file_mess e' record_data
             (s\<lparr>mess_waste_submissions :=
                  mark_verified u (clock e) sid (mess_waste_submissions s)\<rparr>) \<and>
         (mess_waste_submissions s sid = Some row \<longrightarrow>
            mess_waste_submissions (snd (approve_submission e e' record_data u s)) sid =
              Some (row\<lparr>status := verified, verified_by := Some u,
                         verified_at := Some (clock e)\<rparr>))) \<and>
      (nums record_data ''breakfast_students'' = None \<longrightarrow>
         snd (approve_submission e e' record_data u s) =
           add_to_master_file_hostel e' record_data
             (s\<lparr>hostel_waste_submissions :=
                  mark_verified u (clock e) sid (hostel_waste_submissions s)\<rparr>) \<and>
         (hostel_waste_submissions s sid = Some row \<longrightarrow>
            hostel_waste_submissions (snd (approve_submission e e' record_data u s)) sid =
              Some (row\<lparr>status := verified, verified_by := Some u,
                         verified_at := Some (clock e)\<rparr>)))) \<and>
   fst (approve_submission e e' record_data u s) =
     (conn e = Up \<and> submission_id record_data \<noteq> None) \<and>
   (conn e = NoConn \<or> conn e = Fails \<or> submission_id record_data = None \<longrightarrow>
      approve_submission e e' record_data u s = (False, s)) \<and>
   (conn e = CommitFails \<and> submission_id record_data = Some sid \<longrightarrow>
      approve_submission e e' record_data u s =
        (False,
         if nums record_data ''breakfast_students'' \<noteq> None
         then add_to_master_file_mess e' record_data s
         else add_to_master_file_hostel e' record_data s) \<and>
      mess_waste_submissions (snd (approve_submission e e' record_data u s)) =
        mess_waste_submissions s \<and>
      hostel_waste_submissions (snd (approve_submission e e' record_data u s)) =
        hostel_waste_submissions s)"
proof (intro conjI impI)
  assume a: "conn e = Up \<and> submission_id record_data = Some sid"
  show "fst (approve_submission e e' record_data u s) = True"
    using a by (simp add: approve_up)
  {
    assume m: "nums record_data ''breakfast_students'' \<noteq> None"
    show "snd (approve_submission e e' record_data u s) =
           add_to_master_file_mess e' record_data
             (s\<lparr>mess_waste_submissions :=
                  mark_verified u (clock e) sid (mess_waste_submissions s)\<rparr>)"
      using a m by (simp add: approve_up)
    assume "mess_waste_submissions s sid = Some row"
    then show "mess_waste_submissions (snd (approve_submission e e' record_data u s)) sid =
              Some (row\<lparr>status := verified, verified_by := Some u,
                         verified_at := Some (clock e)\<rparr>)"
      using a m by (intro approve_marks_mess) simp_all
  }
  {
    assume h: "nums record_data ''breakfast_students'' = None"
    show "snd (approve_submission e e' record_data u s) =
           add_to_master_file_hostel e' record_data
             (s\<lparr>hostel_waste_submissions :=
                  mark_verified u (clock e) sid (hostel_waste_submissions s)\<rparr>)"
      using a h by (simp add: approve_up)
    assume "hostel_waste_submissions s sid = Some row"
    then show "hostel_waste_submissions (snd (approve_submission e e' record_data u s)) sid =
              Some (row\<lparr>status := verified, verified_by := Some u,
                         verified_at := Some (clock e)\<rparr>)"
      using a h by (intro approve_marks_hostel) simp_all
  }
next
  show "fst (approve_submission e e' record_data u s) =
          (conn e = Up \<and> submission_id record_data \<noteq> None)"
    by (rule approve_result)
next
  assume "conn e = NoConn \<or> conn e = Fails \<or> submission_id record_data = None"
  then show "approve_submission e e' record_data u s = (False, s)"
    by (rule approve_failure)
next
  assume c: "conn e = CommitFails \<and> submission_id record_data = Some sid"
  show r: "approve_submission e e' record_data u s =
        (False,
         if nums record_data ''breakfast_students'' \<noteq> None
         then add_to_master_file_mess e' record_data s
         else add_to_master_file_hostel e' record_data s)"
    using c by (simp add: approve_commit_fails)
  show "mess_waste_submissions (snd (approve_submission e e' record_data u s)) =
        mess_waste_submissions s"
    unfolding r by (simp add: add_mess_other add_hostel_other)
  show "hostel_waste_submissions (snd (approve_submission e e' record_data u s)) =
        hostel_waste_submissions s"
    unfolding r by (simp add: add_mess_other add_hostel_other)
qed

lemma verified_db_simps:
  "mess_waste_submissions example_verified_db ''MESS_1'' =
     Some (example_mess_row\<lparr>status := verified, verified_by := Some ''pho'',
                             verified_at := Some 1\<rparr>)"
  "master_waste_data example_verified_db = Map.empty"
  by (simp_all add: example_verified_db_def example_db_def)

lemma commit_fails_at_simps:
  "conn (commit_fails_at t) = CommitFails" "clock (commit_fails_at t) = t"
  by (simp_all add: commit_fails_at_def)

theorem approve_submission_ignores_status_witness:
  "conn (up_at 5) = Up \<and> submission_id example_mess_record = Some ''MESS_1'' \<and>
   nums example_mess_record ''breakfast_students'' \<noteq> None \<and>
   map_option status (mess_waste_submissions example_verified_db ''MESS_1'') = Some verified \<and>
   fst (approve_submission (up_at 5) (up_at 6) example_mess_record ''pho'' example_verified_db)
     = True \<and>
   map_option verified_at
     (mess_waste_submissions
        (snd (approve_submission (up_at 5) (up_at 6) example_mess_record ''pho''
                example_verified_db)) ''MESS_1'') = Some (Some 5) \<and>
   submission_id example_hostel_first = Some ''HOSTEL_1'' \<and>
   nums example_hostel_first ''breakfast_students'' = None \<and>
   hostel_waste_submissions example_db ''HOSTEL_1'' = Some example_hostel_row_first \<and>
   map_option status
     (hostel_waste_submissions
        (snd (approve_submission (up_at 5) (up_at 6) example_hostel_first ''pho'' example_db))
        ''HOSTEL_1'') = Some verified \<and>
   conn (no_conn_at 5) = NoConn \<and>
   approve_submission (no_conn_at 5) (up_at 6) example_mess_record ''pho'' example_verified_db
     = (False, example_verified_db) \<and>
   conn (commit_fails_at 5) = CommitFails \<and>
   fst (approve_submission (commit_fails_at 5) (up_at 6) example_mess_record ''pho''
          example_db) = False \<and>
   map_option status
     (mess_waste_submissions
        (snd (approve_submission (commit_fails_at 5) (up_at 6) example_mess_record ''pho''
                example_db)) ''MESS_1'') = Some pending \<and>
   map_option total_mess_waste
     (master_waste_data
        (snd (approve_submission (commit_fails_at 5) (up_at 6) example_mess_record ''pho''
                example_db)) (''2024-01-10'', ''2'')) = Some (9 / 2)"
proof -
  note m = approve_submission_ignores_status
    [of "up_at 5" example_mess_record "''MESS_1''" "up_at 6" "''pho''" example_verified_db
        "example_mess_row\<lparr>status := verified, verified_by := Some ''pho'',
                           verified_at := Some 1\<rparr>"]
  note h = approve_submission_ignores_status
    [of "up_at 5" example_hostel_first "''HOSTEL_1''" "up_at 6" "''pho''" example_db
        example_hostel_row_first]
  note f = approve_submission_ignores_status
    [of "no_conn_at 5" example_mess_record "''MESS_1''" "up_at 6" "''pho''" example_verified_db]
  note k = approve_submission_ignores_status
    [of "commit_fails_at 5" example_mess_record "''MESS_1''" "up_at 6" "''pho''" example_db]
  have hm: "conn (up_at 5) = Up \<and> submission_id example_mess_record = Some ''MESS_1''"
    "nums example_mess_record ''breakfast_students'' \<noteq> None"
    "mess_waste_submissions example_verified_db ''MESS_1'' =
       Some (example_mess_row\<lparr>status := verified, verified_by := Some ''pho'',
                               verified_at := Some 1\<rparr>)"
    by (simp_all add: up_at_simps ex_keys verified_db_simps)
  have hh: "conn (up_at 5) = Up \<and> submission_id example_hostel_first = Some ''HOSTEL_1''"
    "nums example_hostel_first ''breakfast_students'' = None"
    "hostel_waste_submissions example_db ''HOSTEL_1'' = Some example_hostel_row_first"
    by (simp_all add: up_at_simps hostel_first_keys example_db_simps)
  have hk: "conn (commit_fails_at 5) = CommitFails \<and>
            submission_id example_mess_record = Some ''MESS_1''"
    by (simp add: commit_fails_at_simps ex_keys)
  have a: "fst (approve_submission (up_at 5) (up_at 6) example_mess_record ''pho''
                  example_verified_db) = True"
    using m hm by blast
  have "mess_waste_submissions
        (snd (approve_submission (up_at 5) (up_at 6) example_mess_record ''pho''
                example_verified_db)) ''MESS_1'' =
        Some (example_mess_row\<lparr>status := verified, verified_by := Some ''pho'',
                                verified_at := Some 1\<rparr>
                \<lparr>status := verified, verified_by := Some ''pho'',
                  verified_at := Some (clock (up_at 5))\<rparr>)"
    using m hm by blast
  then have b: "map_option verified_at
     (mess_waste_submissions
        (snd (approve_submission (up_at 5) (up_at 6) example_mess_record ''pho''
                example_verified_db)) ''MESS_1'') = Some (Some 5)"
    by (simp add: up_at_simps)
  have "hostel_waste_submissions
        (snd (approve_submission (up_at 5) (up_at 6) example_hostel_first ''pho'' example_db))
        ''HOSTEL_1'' =
        Some (example_hostel_row_first
                \<lparr>status := verified, verified_by := Some ''pho'',
                  verified_at := Some (clock (up_at 5))\<rparr>)"
    using h hh by blast
  then have c: "map_option status
     (hostel_waste_submissions
        (snd (approve_submission (up_at 5) (up_at 6) example_hostel_first ''pho'' example_db))
        ''HOSTEL_1'') = Some verified"
    by simp
  have d: "approve_submission (no_conn_at 5) (up_at 6) example_mess_record ''pho''
             example_verified_db = (False, example_verified_db)"
    using f by (simp add: no_conn_at_simps)
  have k1: "approve_submission (commit_fails_at 5) (up_at 6) example_mess_record ''pho''
              example_db =
            (False, add_to_master_file_mess (up_at 6) example_mess_record example_db)"
    using k hk ex_keys(4) by simp
  have k2: "mess_waste_submissions
              (snd (approve_submission (commit_fails_at 5) (up_at 6) example_mess_record
                      ''pho'' example_db)) = mess_waste_submissions example_db"
    using k hk by blast
  have k3: "map_option total_mess_waste
     (master_waste_data (add_to_master_file_mess (up_at 6) example_mess_record example_db)
        (''2024-01-10'', ''2'')) = Some (9 / 2)"
    by (simp add: add_mess_master up_at_simps ex_keys example_db_simps mess_insert_row_def
          ex_totals)
  show ?thesis
    using a b c d k3
    by (simp add: k1 up_at_simps no_conn_at_simps commit_fails_at_simps ex_keys
          hostel_first_keys example_db_simps verified_db_simps add_mess_other ex_row_status)
qed

text \<open>
  C2 as stated fails: the row \<open>MESS_1\<close> is already verified, and approving it
  again returns True and writes the aggregate row.
\<close>

theorem approve_submission_second_approval_counterexample:
  "map_option status (mess_waste_submissions example_verified_db ''MESS_1'') = Some verified \<and>
   master_waste_data example_verified_db (''2024-01-10'', ''2'') = None \<and>
   fst (approve_submission (up_at 5) (up_at 6) example_mess_record ''pho'' example_verified_db)
     = True \<and>
   map_option total_mess_waste
     (master_waste_data
        (snd (approve_submission (up_at 5) (up_at 6) example_mess_record ''pho''
                example_verified_db))
        (''2024-01-10'', ''2'')) = Some (9 / 2)"
  by (simp add: approve_up up_at_simps add_mess_master ex_totals ex_keys verified_db_simps
        mess_insert_row_def)

text \<open>
  C9 (as amended). \<open>approve_all_collections\<close> calls \<open>approve_submission\<close> on every record
  in list order, each on the state the call before it left, whether or not an earlier
  call failed; it returns nothing, so the caller is not told which approvals succeeded.
\<close>

theorem approve_all_collections_attempts_each:
  "fst (approve_all_collections es records u s) = () \<and>
   snd (approve_all_collections es records u s) =
     foldl (\<lambda>s (i, r). snd (approve_submission (fst (es i)) (snd (es i)) r u s)) s
       (zip [0 ..< length records] records) \<and>
   snd (approve_all_collections es (records @ [r]) u s) =
     snd (approve_submission (fst (es (length records))) (snd (es (length records))) r u
            (snd (approve_all_collections es records u s)))"
  using approve_loop_foldl [of es 0 records u s]
  by (simp add: approve_all_collections_def approve_loop_append)

text \<open>
  C9 as stated fails: the first of two approvals fails and the second succeeds,
  and the operation returns what it returns when both succeed.
\<close>

theorem approve_all_collections_counterexample:
  "fst (approve_submission (fst (first_call_fails 0)) (snd (first_call_fails 0))
          example_hostel_first ''pho'' example_db) = False \<and>
   fst (approve_submission (fst (always_up 0)) (snd (always_up 0))
          example_hostel_first ''pho'' example_db) = True \<and>
   map_option status
     (hostel_waste_submissions
        (snd (approve_all_collections first_call_fails
                [example_hostel_first, example_hostel_second] ''pho'' example_db))
        ''HOSTEL_1'') = Some pending \<and>
   map_option status
     (hostel_waste_submissions
        (snd (approve_all_collections first_call_fails
                [example_hostel_first, example_hostel_second] ''pho'' example_db))
        ''HOSTEL_2'') = Some verified \<and>
   fst (approve_all_collections first_call_fails
          [example_hostel_first, example_hostel_second] ''pho'' example_db) =
   fst (approve_all_collections always_up
          [example_hostel_first, example_hostel_second] ''pho'' example_db)"
proof -
  have f0: "approve_submission (fst (first_call_fails 0)) (snd (first_call_fails 0))
          example_hostel_first ''pho'' example_db = (False, example_db)"
    by (simp add: first_call_fails_def approve_failure no_conn_at_simps)
  have u0: "fst (approve_submission (fst (always_up 0)) (snd (always_up 0))
          example_hostel_first ''pho'' example_db) = True"
    by (simp add: always_up_def approve_up up_at_simps hostel_first_keys)
  have s: "snd (approve_all_collections first_call_fails
                [example_hostel_first, example_hostel_second] ''pho'' example_db) =
           snd (approve_submission (up_at 2) (up_at 3) example_hostel_second ''pho'' example_db)"
    using f0 by (simp add: approve_all_collections_def first_call_fails_def always_up_def)
  have p: "map_option status
     (hostel_waste_submissions
        (snd (approve_submission (up_at 2) (up_at 3) example_hostel_second ''pho'' example_db))
        ''HOSTEL_1'') = Some pending"
    by (simp add: approve_up up_at_simps hostel_second_keys add_hostel_other mark_verified_def
          example_db_simps example_hostel_row_first_def)
  have v: "map_option status
     (hostel_waste_submissions
        (snd (approve_submission (up_at 2) (up_at 3) example_hostel_second ''pho'' example_db))
        ''HOSTEL_2'') = Some verified"
    by (simp add: approve_up up_at_simps hostel_second_keys add_hostel_other mark_verified_def
          example_db_simps)
  show ?thesis using f0 u0 p v by (simp add: s)
qed

subsection \<open>Edit and approve: two committed steps\<close>

lemma form_keys_present:
  "list_all (\<lambda>c. mess_edited_data form c \<noteq> None) mess_edit_columns"
  "list_all (\<lambda>c. hostel_edited_data form c \<noteq> None) hostel_edit_columns"
  by (simp_all add: mess_edited_data_def mess_edit_columns_def hostel_edited_data_def
        hostel_edit_columns_def)

lemma update_mess_form:
  "update_submission_with_edits e sid ''mess_waste'' (mess_edited_data form) u s =
     (if conn e = Up then
        (True,
         s\<lparr>mess_waste_submissions :=
              update_edited mess_edit_columns (mess_edited_data form) u (clock e) sid
                (mess_waste_submissions s)\<rparr>)
      else (False, s))"
  unfolding update_submission_with_edits_def using form_keys_present(1) [of form]
  by (simp split: conn.splits)

lemma update_hostel_form:
  "ty \<noteq> ''mess_waste'' \<Longrightarrow>
   update_submission_with_edits e sid ty (hostel_edited_data form) u s =
     (if conn e = Up then
        (True,
         s\<lparr>hostel_waste_submissions :=
              update_edited hostel_edit_columns (hostel_edited_data form) u (clock e) sid
                (hostel_waste_submissions s)\<rparr>)
      else (False, s))"
  unfolding update_submission_with_edits_def using form_keys_present(2) [of form]
  by (simp split: conn.splits)

lemma update_form_cases:
  "update_submission_with_edits e sid ty (build_edited_data ty form) u s =
     (if conn e = Up then
        (True,
         if ty = ''mess_waste''
         then s\<lparr>mess_waste_submissions :=
                  update_edited mess_edit_columns (mess_edited_data form) u (clock e) sid
                    (mess_waste_submissions s)\<rparr>
         else s\<lparr>hostel_waste_submissions :=
                  update_edited hostel_edit_columns (hostel_edited_data form) u (clock e) sid
                    (hostel_waste_submissions s)\<rparr>)
      else (False, s))"
proof (cases "ty = ''mess_waste''")
  case True
  then show ?thesis by (simp add: build_edited_data_def update_mess_form)
next
  case False
  then show ?thesis by (simp add: build_edited_data_def update_hostel_form)
qed

lemma update_edited_at:
  "tbl sid = Some row \<Longrightarrow>
   update_edited cs edited u t sid tbl sid =
     Some (row\<lparr>cols := (\<lambda>c. if c \<in> set cs then edited c else cols row c),
               status := verified, verified_by := Some u, verified_at := Some t\<rparr>)"
  by (simp add: update_edited_def)

lemma show_edit_form_eq:
  "show_edit_form e e' b form reason rd ty u s =
     (case b of
        Cancel \<Rightarrow> (Cancelled, s)
      | Save \<Rightarrow>
          (case submission_id rd of
             None \<Rightarrow> (RaisedKeyError, s)
           | Some sid \<Rightarrow>
               if conn e = Up \<and> non_json rd = [] \<and>
                  (ty = ''mess_waste'' \<or> ty = ''hostel_waste'') then
                 if conn e' = Up then
                   (Approved,
                    snd (update_submission_with_edits e' sid ty (build_edited_data ty form) u
                           (s\<lparr>pho_edits := pho_edits s @
                                [new_edit e sid ty rd (build_edited_data ty form) u reason]\<rparr>)))
                 else
                   (ErrorUpdating,
                    s\<lparr>pho_edits := pho_edits s @
                        [new_edit e sid ty rd (build_edited_data ty form) u reason]\<rparr>)
               else (ErrorSaving, s)))"
  by (auto simp: show_edit_form_def save_cases update_form_cases Let_def
        split: button.splits option.splits)





subsection \<open>Edit and approve: the audit record and the master data\<close>

lemma ex_form_values:
  "mess_edited_data example_form ''breakfast_student_waste'' = Some 5"
  "mess_edited_data example_form ''total_mess_waste'' = Some (13 / 2)"
  "''breakfast_student_waste'' \<in> set mess_edit_columns"
  by (simp_all add: mess_edited_data_def example_form_def mess_edit_columns_def dict_get_def
        example_mess_record_def record_of_row_simps example_mess_row_def)

lemma loaded_edit_fails:
  "show_edit_form e e' Save form reason (record_of_row sid row) ty u s = (ErrorSaving, s)"
  by (simp add: show_edit_form_eq record_of_row_simps loaded_not_serialisable)

lemma plain_edit_approved:
  "show_edit_form (up_at 5) (up_at 6) Save example_form ''recount'' example_plain_record
     ''mess_waste'' ''pho'' example_db =
   (Approved,
    example_db
      \<lparr>mess_waste_submissions :=
         update_edited mess_edit_columns (mess_edited_data example_form) ''pho'' 6 ''MESS_1''
           (mess_waste_submissions example_db),
       pho_edits :=
         [new_edit (up_at 5) ''MESS_1'' ''mess_waste'' example_plain_record
            (mess_edited_data example_form) ''pho'' ''recount'']\<rparr>)"
  by (simp add: show_edit_form_eq plain_keys up_at_simps update_mess_form example_db_simps
        build_edited_data_def)








text \<open>
  C3. The claim: after a successful edit-then-approve of a pending submission the master
  row of its date and hostel holds the totals of the edited values. The code: on the
  record of a stored row the flow stops at the audit write, which cannot serialise the
  record, and changes nothing; and no outcome of the flow writes the master data. For a
  record that serialises, the flow reports success, stores the edited values in the
  submission and marks it verified, and the master data has no row; direct approval of
  the stored record does write it.
\<close>

theorem edit_and_approve_skips_master:
  "show_edit_form e e' Save form reason (record_of_row sid row) ty u s = (ErrorSaving, s) \<and>
   master_waste_data (snd (show_edit_form e e' b form reason rd ty u s)) =
     master_waste_data s \<and>
   example_mess_record = record_of_row ''MESS_1'' example_mess_row \<and>
   mess_waste_submissions example_db ''MESS_1'' = Some example_mess_row \<and>
   status example_mess_row = pending \<and>
   master_waste_data example_db (''2024-01-10'', ''2'') = None \<and>
   show_edit_form (up_at 5) (up_at 6) Save example_form ''recount'' example_mess_record
     ''mess_waste'' ''pho'' example_db = (ErrorSaving, example_db) \<and>
   fst (show_edit_form (up_at 5) (up_at 6) Save example_form ''recount'' example_plain_record
          ''mess_waste'' ''pho'' example_db) = Approved \<and>
   map_option status
     (mess_waste_submissions
        (snd (show_edit_form (up_at 5) (up_at 6) Save example_form ''recount''
                example_plain_record ''mess_waste'' ''pho'' example_db)) ''MESS_1'') =
     Some verified \<and>
   map_option (column_of ''breakfast_student_waste'')
     (mess_waste_submissions
        (snd (show_edit_form (up_at 5) (up_at 6) Save example_form ''recount''
                example_plain_record ''mess_waste'' ''pho'' example_db)) ''MESS_1'') =
     Some (Some 5) \<and>
   master_waste_data
     (snd (show_edit_form (up_at 5) (up_at 6) Save example_form ''recount''
             example_plain_record ''mess_waste'' ''pho'' example_db))
     (''2024-01-10'', ''2'') = None \<and>
   map_option total_mess_waste
     (master_waste_data
        (snd (approve_submission (up_at 5) (up_at 6) example_mess_record ''pho'' example_db))
        (''2024-01-10'', ''2'')) = Some (9 / 2)"
proof -
  have l: "show_edit_form (up_at 5) (up_at 6) Save example_form ''recount''
             example_mess_record ''mess_waste'' ''pho'' example_db = (ErrorSaving, example_db)"
    by (simp add: example_mess_record_def loaded_edit_fails)
  have p: "fst (show_edit_form (up_at 5) (up_at 6) Save example_form ''recount''
             example_plain_record ''mess_waste'' ''pho'' example_db) = Approved \<and>
   map_option status
     (mess_waste_submissions
        (snd (show_edit_form (up_at 5) (up_at 6) Save example_form ''recount''
                example_plain_record ''mess_waste'' ''pho'' example_db)) ''MESS_1'') =
     Some verified \<and>
   map_option (column_of ''breakfast_student_waste'')
     (mess_waste_submissions
        (snd (show_edit_form (up_at 5) (up_at 6) Save example_form ''recount''
                example_plain_record ''mess_waste'' ''pho'' example_db)) ''MESS_1'') =
     Some (Some 5) \<and>
   master_waste_data
     (snd (show_edit_form (up_at 5) (up_at 6) Save example_form ''recount''
             example_plain_record ''mess_waste'' ''pho'' example_db))
     (''2024-01-10'', ''2'') = None"
    by (simp add: plain_edit_approved example_db_simps update_edited_at ex_form_values
          column_of_def)
  have d: "map_option total_mess_waste
     (master_waste_data
        (snd (approve_submission (up_at 5) (up_at 6) example_mess_record ''pho'' example_db))
        (''2024-01-10'', ''2'')) = Some (9 / 2)"
    by (simp add: approve_up up_at_simps ex_keys add_mess_master ex_totals mess_insert_row_def
          example_db_simps)
  show ?thesis
    using l p d
    by (simp add: loaded_edit_fails show_edit_form_master example_db_simps ex_row_status
          example_mess_record_def)
qed





end
